theory Spec2Isabelle
  imports Complex_Main "HOL-Library.Sublist"
begin

section \<open>Errors\<close>

text \<open>
  Python exceptions are values of \<open>error\<close>; a fallible function returns \<open>error + 'a\<close>
  with \<open>Inl\<close> for the exception. The first five constructors are the exceptions the
  interpreter and the libraries raise in the modelled functions. The last three are the
  error kinds named by the specification; no statement of the source constructs them.
\<close>

datatype error =
    NameError | UnboundLocalError | TypeError | IndexError | ValueError
  | InvalidParameterError | InsufficientDataError | NumericDegeneracyError

section \<open>ecgDenoising.py: swtDenoise\<close>

text \<open>
  The coefficient loop of \<open>swtDenoise\<close> (the same text in both branches):
  \<^verbatim>\<open>
  for k in range(0, len(cDetailed) - 1):
      if abs(cDetailed[k]) >= setThreshold:
          cDetailed[k] = 0
  \<close>
  \<open>gate_loop\<close> runs the body over the indices of the range, updating the array;
  \<open>gate_detail\<close> supplies \<open>range(0, len(cDetailed) - 1)\<close>, which is empty for an array
  of length 0 or 1.
\<close>

fun gate_loop :: "real \<Rightarrow> nat list \<Rightarrow> real list \<Rightarrow> real list" where
  "gate_loop setThreshold [] cDetailed = cDetailed"
| "gate_loop setThreshold (k # ks) cDetailed =
     gate_loop setThreshold ks
       (if \<bar>cDetailed ! k\<bar> \<ge> setThreshold then cDetailed[k := 0] else cDetailed)"

definition gate_detail :: "real \<Rightarrow> real list \<Rightarrow> real list" where
  "gate_detail setThreshold cDetailed =
     gate_loop setThreshold [0 ..< length cDetailed - 1] cDetailed"

text \<open>
  PyWavelets is an external library. \<open>pywt\<close> is its interface as \<open>swtDenoise\<close> uses it,
  at the wavelet named \<open>waveletChoose + str(orderChoose)\<close>: the constructor
  \<open>pywt.Wavelet\<close>, the single-level pair \<open>dwt\<close>/\<open>idwt\<close> and the multi-level pair
  \<open>wavedec\<close>/\<open>waverec\<close>. Every call may raise. Samples and coefficients are real numbers:
  rounding of the floating-point arithmetic is not modelled. The import statements of
  the two modules are taken to succeed, with \<open>pywt\<close> bound to PyWavelets.
\<close>

record pywt =
  Wavelet :: "error + unit"
  dwt :: "real list \<Rightarrow> error + (real list \<times> real list)"
  idwt :: "real list \<Rightarrow> real list \<Rightarrow> error + real list"
  wavedec :: "real list \<Rightarrow> int \<Rightarrow> error + real list list"
  waverec :: "real list list \<Rightarrow> error + real list"

text \<open>
  \<open>swtDenoise\<close>, lines 26 to 61. With \<open>levelChoose == 1\<close>: \<open>dwt\<close>, the wavelet object,
  the loop on \<open>cDetailed\<close>, \<open>idwt\<close>. Otherwise: the wavelet object, \<open>wavedec\<close>, the wavelet
  object again, the loop on \<open>multilevelCoefficients[1]\<close> (an IndexError when the list has
  fewer than two entries), the entry written back, \<open>waverec\<close>.
\<close>

definition swtDenoise :: "pywt \<Rightarrow> real list \<Rightarrow> int \<Rightarrow> real \<Rightarrow> error + real list" where
  "swtDenoise lib signal levelChoose setThreshold =
     (if levelChoose = 1 then
        (case dwt lib signal of
           Inl e \<Rightarrow> Inl e
         | Inr (cApproximate, cDetailed) \<Rightarrow>
            (case Wavelet lib of
               Inl e \<Rightarrow> Inl e
             | Inr wv \<Rightarrow> idwt lib cApproximate (gate_detail setThreshold cDetailed)))
      else
        (case Wavelet lib of
           Inl e \<Rightarrow> Inl e
         | Inr wv0 \<Rightarrow>
            (case wavedec lib signal levelChoose of
               Inl e \<Rightarrow> Inl e
             | Inr multilevelCoefficients \<Rightarrow>
                (case Wavelet lib of
                   Inl e \<Rightarrow> Inl e
                 | Inr wv \<Rightarrow>
                    (if length multilevelCoefficients < 2 then Inl IndexError
                     else waverec lib
                            (multilevelCoefficients
                               [1 := gate_detail setThreshold (multilevelCoefficients ! 1)]))))))"

subsection \<open>The library at the wavelet db1\<close>

text \<open>
  An instance of the interface for concrete runs: PyWavelets at \<open>waveletChoose = 'db'\<close>,
  \<open>orderChoose = 1\<close>, the Haar wavelet, as the library documents it. \<open>dwt\<close> pairs
  consecutive samples, \<open>cA = (x + y) / sqrt 2\<close> and \<open>cD = (x - y) / sqrt 2\<close> (so that
  \<open>pywt.dwt([1, 2, 3, 4], 'db1')\<close> has \<open>cD = [-0.7071, -0.7071]\<close>); an odd-length input is
  extended by its last sample; empty data is rejected. \<open>idwt\<close> inverts it on arrays of
  equal length. \<open>wavedec\<close> rejects a negative level, applies \<open>dwt\<close> to the approximation
  \<open>level\<close> times and returns \<open>[cA_n, cD_n, ..., cD_1]\<close>; a level above
  \<open>dwt_max_level\<close> only draws a warning. \<open>waverec\<close> folds \<open>idwt\<close> over that list,
  dropping the last approximation sample when it is one longer than the detail.
\<close>

fun haar_analysis :: "real list \<Rightarrow> real list \<times> real list" where
  "haar_analysis (x # y # zs) =
     (case haar_analysis zs of (a, d) \<Rightarrow> ((x + y) / sqrt 2 # a, (x - y) / sqrt 2 # d))"
| "haar_analysis [x] = ([(x + x) / sqrt 2], [(x - x) / sqrt 2])"
| "haar_analysis [] = ([], [])"

definition haar_dwt :: "real list \<Rightarrow> error + (real list \<times> real list)" where
  "haar_dwt data = (if data = [] then Inl ValueError else Inr (haar_analysis data))"

fun haar_synthesis :: "real list \<Rightarrow> real list \<Rightarrow> real list" where
  "haar_synthesis (a # as) (d # ds) =
     (a + d) / sqrt 2 # (a - d) / sqrt 2 # haar_synthesis as ds"
| "haar_synthesis _ _ = []"

definition haar_idwt :: "real list \<Rightarrow> real list \<Rightarrow> error + real list" where
  "haar_idwt cA cD =
     (if cA = [] then Inl ValueError
      else if length cA = length cD then Inr (haar_synthesis cA cD)
      else Inl ValueError)"

fun haar_wavedec_loop :: "nat \<Rightarrow> real list \<Rightarrow> real list list \<Rightarrow> error + real list list" where
  "haar_wavedec_loop 0 a coeffs = Inr (a # coeffs)"
| "haar_wavedec_loop (Suc n) a coeffs =
     (case haar_dwt a of
        Inl e \<Rightarrow> Inl e
      | Inr (a', d) \<Rightarrow> haar_wavedec_loop n a' (d # coeffs))"

definition haar_wavedec :: "real list \<Rightarrow> int \<Rightarrow> error + real list list" where
  "haar_wavedec data level =
     (if level < 0 then Inl ValueError else haar_wavedec_loop (nat level) data [])"

fun haar_waverec_loop :: "real list \<Rightarrow> real list list \<Rightarrow> error + real list" where
  "haar_waverec_loop a [] = Inr a"
| "haar_waverec_loop a (d # ds) =
     (let a' = (if length a = length d + 1 then take (length d) a else a)
      in if length a' \<noteq> length d then Inl ValueError
         else (case haar_idwt a' d of
                 Inl e \<Rightarrow> Inl e
               | Inr a'' \<Rightarrow> haar_waverec_loop a'' ds))"

definition haar_waverec :: "real list list \<Rightarrow> error + real list" where
  "haar_waverec coeffs =
     (case coeffs of [] \<Rightarrow> Inl ValueError | a # ds \<Rightarrow> haar_waverec_loop a ds)"

definition pywt_db1 :: pywt where
  "pywt_db1 =
     \<lparr>Wavelet = Inr (), dwt = haar_dwt, idwt = haar_idwt,
      wavedec = haar_wavedec, waverec = haar_waverec\<rparr>"


section \<open>numpy values and Python slices\<close>

text \<open>
  A numpy float is a finite real, an infinity or NaN. Division by zero and the mean of
  an empty array do not raise in numpy: they give an infinity or NaN (with a
  RuntimeWarning). Every comparison with NaN is false. Rounding and signed zeros are not
  modelled.
\<close>

datatype npfloat = Finite real | PosInf | NegInf | NaN

fun float_add :: "npfloat \<Rightarrow> npfloat \<Rightarrow> npfloat" where
  "float_add (Finite a) (Finite b) = Finite (a + b)"
| "float_add NaN _ = NaN"
| "float_add _ NaN = NaN"
| "float_add PosInf NegInf = NaN"
| "float_add NegInf PosInf = NaN"
| "float_add PosInf _ = PosInf"
| "float_add NegInf _ = NegInf"
| "float_add _ PosInf = PosInf"
| "float_add _ NegInf = NegInf"

fun float_neg :: "npfloat \<Rightarrow> npfloat" where
  "float_neg (Finite a) = Finite (- a)"
| "float_neg PosInf = NegInf"
| "float_neg NegInf = PosInf"
| "float_neg NaN = NaN"

definition float_sub :: "npfloat \<Rightarrow> npfloat \<Rightarrow> npfloat" where
  "float_sub a b = float_add a (float_neg b)"

text \<open>\<open>a / b\<close> for a numerator that is finite, an infinity or NaN, and a finite or
  infinite denominator.\<close>

fun float_div :: "npfloat \<Rightarrow> npfloat \<Rightarrow> npfloat" where
  "float_div NaN _ = NaN"
| "float_div _ NaN = NaN"
| "float_div (Finite a) (Finite b) =
     (if b \<noteq> 0 then Finite (a / b)
      else if a > 0 then PosInf else if a < 0 then NegInf else NaN)"
| "float_div (Finite a) _ = Finite 0"
| "float_div PosInf (Finite b) = (if b < 0 then NegInf else PosInf)"
| "float_div NegInf (Finite b) = (if b < 0 then PosInf else NegInf)"
| "float_div _ _ = NaN"

fun float_sqrt :: "npfloat \<Rightarrow> npfloat" where
  "float_sqrt (Finite a) = (if a < 0 then NaN else Finite (sqrt a))"
| "float_sqrt PosInf = PosInf"
| "float_sqrt _ = NaN"

text \<open>\<open>x <= t\<close> and \<open>abs(x) > t\<close> for a float \<open>x\<close> and a finite \<open>t\<close>.\<close>

fun float_le :: "npfloat \<Rightarrow> real \<Rightarrow> bool" where
  "float_le (Finite a) t = (a \<le> t)"
| "float_le NegInf t = True"
| "float_le PosInf t = False"
| "float_le NaN t = False"

fun float_abs_gt :: "npfloat \<Rightarrow> real \<Rightarrow> bool" where
  "float_abs_gt (Finite a) t = (\<bar>a\<bar> > t)"
| "float_abs_gt PosInf t = True"
| "float_abs_gt NegInf t = True"
| "float_abs_gt NaN t = False"

text \<open>
  \<open>np.mean\<close> of a one-dimensional array of finite samples: the sum over the count, NaN
  for the empty array. \<open>np_var\<close> is numpy's variance with \<open>ddof\<close>: the sum of squared
  deviations from the mean over \<open>max(N - ddof, 0)\<close> (the empty array has no deviations,
  so its mean is not used); \<open>np_std\<close> is its square root, and \<open>np.std(x)\<close> is
  \<open>np_std x 0\<close>.
\<close>

definition np_mean :: "real list \<Rightarrow> npfloat" where
  "np_mean xs = float_div (Finite (sum_list xs)) (Finite (real (length xs)))"

definition np_var :: "real list \<Rightarrow> int \<Rightarrow> npfloat" where
  "np_var xs ddof =
     (let arrmean = sum_list xs / real (length xs);
          x = map (\<lambda>v. (v - arrmean) * (v - arrmean)) xs
      in float_div (Finite (sum_list x))
                   (Finite (real_of_int (max (int (length xs) - ddof) 0))))"

definition np_std :: "real list \<Rightarrow> int \<Rightarrow> npfloat" where
  "np_std xs ddof = float_sqrt (np_var xs ddof)"

text \<open>
  A slice \<open>xs[i:j]\<close> of a list or array: a negative bound counts from the end, each
  bound is clipped to \<open>[0, len(xs)]\<close>, and the slice is empty when the bounds cross.
  Slicing never raises for integer bounds.
\<close>

definition py_slice_bound :: "nat \<Rightarrow> int \<Rightarrow> nat" where
  "py_slice_bound n i =
     (if i < 0 then (if i + int n < 0 then 0 else nat (i + int n))
      else if i > int n then n else nat i)"

definition py_slice :: "'a list \<Rightarrow> int \<Rightarrow> int \<Rightarrow> 'a list" where
  "py_slice xs i j =
     (let lo = py_slice_bound (length xs) i; hi = py_slice_bound (length xs) j
      in take (hi - lo) (drop lo xs))"

text \<open>\<open>int(x)\<close> on a float truncates towards zero.\<close>

definition py_int :: "real \<Rightarrow> int" where
  "py_int x = (if 0 \<le> x then \<lfloor>x\<rfloor> else \<lceil>x\<rceil>)"

section \<open>ecgAnalyses.py\<close>

subsection \<open>calculate_heart_rate\<close>

text \<open>
  \<^verbatim>\<open>
  if len(r_peak_indices) <= 1:
      return 0
  rr_intervals = np.diff(r_peak_indices) / sampling_rate
  heart_rate = 60.0 / np.mean(rr_intervals)
  return heart_rate, rr_intervals
  \<close>
  The two \<open>return\<close> statements give values of different shape: the integer \<open>0\<close> and a
  tuple of a float and an array. \<open>NonFinite\<close> stands for the runs in which
  \<open>sampling_rate\<close> or the mean interval is zero: numpy then yields infinities or NaN,
  which this result type does not describe further.
\<close>

datatype hr_result = Bare_int int | Tuple real "real list" | NonFinite

definition np_diff :: "int list \<Rightarrow> int list" where
  "np_diff xs = map (\<lambda>(a, b). b - a) (zip xs (tl xs))"

definition calculate_heart_rate :: "int list \<Rightarrow> int \<Rightarrow> hr_result" where
  "calculate_heart_rate r_peak_indices sampling_rate =
     (if length r_peak_indices \<le> 1 then Bare_int 0
      else
        (let rr_intervals =
               map (\<lambda>d. real_of_int d / real_of_int sampling_rate) (np_diff r_peak_indices)
         in if sampling_rate = 0 \<or> sum_list rr_intervals = 0 then NonFinite
            else Tuple (60 / (sum_list rr_intervals / real (length rr_intervals))) rr_intervals))"

subsection \<open>analyze_rhythm\<close>

definition analyze_rhythm :: "real list \<Rightarrow> real \<Rightarrow> string" where
  "analyze_rhythm rr_intervals threshold =
     (let std_dev = np_std rr_intervals 0
      in if float_le std_dev threshold then ''Regular'' else ''Irregular'')"

text \<open>
  The population standard deviation in the words of the specification: the square root
  of the mean squared deviation from the mean.
\<close>

definition population_std :: "real list \<Rightarrow> real" where
  "population_std xs =
     sqrt ((\<Sum>x\<leftarrow>xs. (x - sum_list xs / real (length xs))\<^sup>2) / real (length xs))"

subsection \<open>analyze_st_segment\<close>

text \<open>
  \<open>int(0.08 * sampling_rate)\<close> and \<open>int(0.2 * sampling_rate)\<close> for an integer sampling
  rate; the products are taken exactly.
\<close>

definition st_segment_duration :: "int \<Rightarrow> int" where
  "st_segment_duration sampling_rate = py_int (8 / 100 * real_of_int sampling_rate)"

definition t_segment_start :: "int \<Rightarrow> int" where
  "t_segment_start sampling_rate = py_int (2 / 10 * real_of_int sampling_rate)"

text \<open>The two list comprehensions: one slice per R-peak, whatever its bounds.\<close>

definition st_segments :: "real list \<Rightarrow> int list \<Rightarrow> int \<Rightarrow> real list list" where
  "st_segments ecg_signal r_peak_indices sampling_rate =
     map (\<lambda>r_peak. py_slice ecg_signal
                     (r_peak + t_segment_start sampling_rate)
                     (r_peak + t_segment_start sampling_rate
                        + st_segment_duration sampling_rate))
         r_peak_indices"

definition tp_segments :: "real list \<Rightarrow> int list \<Rightarrow> int \<Rightarrow> real list list" where
  "tp_segments ecg_signal r_peak_indices sampling_rate =
     map (\<lambda>r_peak. py_slice ecg_signal (r_peak - st_segment_duration sampling_rate) r_peak)
         r_peak_indices"

text \<open>
  \<open>np.mean\<close> of a list of segments. Segments of one length form a two-dimensional array,
  whose mean is taken over all entries (NaN when there are none). Segments of different
  lengths do not form an array: numpy (1.24 and later) raises ValueError.
\<close>

definition np_mean_segments :: "real list list \<Rightarrow> error + npfloat" where
  "np_mean_segments segments =
     (case segments of
        [] \<Rightarrow> Inr (np_mean [])
      | s # rest \<Rightarrow>
          (if list_all (\<lambda>t. length t = length s) rest then Inr (np_mean (concat segments))
           else Inl ValueError))"

text \<open>
  \<^verbatim>\<open>
  for st_amplitude in st_amplitudes:
      if abs(st_amplitude) > 0.1:
          return "Abnormal"
  return "Normal"
  \<close>
\<close>

fun st_amplitude_loop :: "npfloat list \<Rightarrow> string" where
  "st_amplitude_loop [] = ''Normal''"
| "st_amplitude_loop (st_amplitude # rest) =
     (if float_abs_gt st_amplitude (1 / 10) then ''Abnormal'' else st_amplitude_loop rest)"

definition analyze_st_segment :: "real list \<Rightarrow> int list \<Rightarrow> int \<Rightarrow> error + string" where
  "analyze_st_segment ecg_signal r_peak_indices sampling_rate =
     (case np_mean_segments (tp_segments ecg_signal r_peak_indices sampling_rate) of
        Inl e \<Rightarrow> Inl e
      | Inr st_baseline \<Rightarrow>
          (let st_amplitudes =
                 map (\<lambda>st_segment. float_sub (np_mean st_segment) st_baseline)
                     (st_segments ecg_signal r_peak_indices sampling_rate)
           in Inr (st_amplitude_loop st_amplitudes)))"

subsection \<open>analyze_pr_interval\<close>

text \<open>
  The body reads two names that are neither parameters nor locals: \<open>r_peak_indices\<close> and
  \<open>ecg_data\<close>. Python looks them up among the module's globals when the statement runs
  and raises NameError for a name that is not bound. \<open>pr_globals\<close> holds what the two
  names are bound to: \<open>None\<close> for a name that is not bound, an index array and a sample
  array otherwise. The module as written binds neither.
\<close>

record pr_globals =
  g_r_peak_indices :: "int list option"
  g_ecg_data :: "real list option"

definition ecgAnalyses_globals :: pr_globals where
  "ecgAnalyses_globals = \<lparr>g_r_peak_indices = None, g_ecg_data = None\<rparr>"

definition load_global :: "'a option \<Rightarrow> error + 'a" where
  "load_global v = (case v of None \<Rightarrow> Inl NameError | Some x \<Rightarrow> Inr x)"

text \<open>
  The search windows are \<open>0.04 * 1000\<close> and \<open>0.1 * 1000\<close>, the floats 40.0 and 100.0, so
  a bound computed from them is a float. \<open>max(0, x)\<close> is \<open>x\<close> when \<open>x > 0\<close> and the
  integer \<open>0\<close> otherwise. A slice with a float bound raises TypeError.
\<close>

datatype pynum = PyInt int | PyFloat real

fun pynum_val :: "pynum \<Rightarrow> real" where
  "pynum_val (PyInt i) = real_of_int i"
| "pynum_val (PyFloat x) = x"

definition py_max0 :: "real \<Rightarrow> pynum" where
  "py_max0 x = (if x > 0 then PyFloat x else PyInt 0)"

fun pynum_add :: "pynum \<Rightarrow> int \<Rightarrow> pynum" where
  "pynum_add (PyInt i) k = PyInt (i + k)"
| "pynum_add (PyFloat x) k = PyFloat (x + real_of_int k)"

fun slice_window :: "real list \<Rightarrow> pynum \<Rightarrow> pynum \<Rightarrow> error + real list" where
  "slice_window xs (PyInt i) (PyInt j) = Inr (py_slice xs i j)"
| "slice_window xs _ _ = Inl TypeError"

text \<open>
  \<open>scipy.signal.find_peaks\<close> is external: \<open>find_peaks\<close> below is a parameter, the function
  from a window to the indices of its peaks.
  \<^verbatim>\<open>
  for r_peak in r_peak_indices:
      search_start = max(0, r_peak - p_peak_search_window)
      search_end = r_peak
      p_peak, _ = find_peaks(ecg_data[search_start:search_end])
      if len(p_peak) > 0:
          p_peak_indices.append(search_start + p_peak[0])
  \<close>
\<close>

fun p_peak_loop ::
  "(real list \<Rightarrow> nat list) \<Rightarrow> real list option \<Rightarrow> int list \<Rightarrow> pynum list
     \<Rightarrow> error + pynum list" where
  "p_peak_loop find_peaks ecg [] p_peak_indices = Inr p_peak_indices"
| "p_peak_loop find_peaks ecg (r_peak # rest) p_peak_indices =
     (let search_start = py_max0 (real_of_int r_peak - 40);
          search_end = PyInt r_peak
      in case load_global ecg of
           Inl e \<Rightarrow> Inl e
         | Inr ecg_data \<Rightarrow>
            (case slice_window ecg_data search_start search_end of
               Inl e \<Rightarrow> Inl e
             | Inr window \<Rightarrow>
                (let p_peak = find_peaks window
                 in p_peak_loop find_peaks ecg rest
                      (if length p_peak > 0
                       then p_peak_indices @ [pynum_add search_start (int (p_peak ! 0))]
                       else p_peak_indices))))"

text \<open>
  \<^verbatim>\<open>
  for r_peak in r_peak_indices:
      search_start = r_peak
      search_end = r_peak + qrs_peak_search_window
      qrs_peak, _ = find_peaks(ecg_data[search_start:search_end])
  \<close>
  The loop leaves \<open>search_start\<close> and \<open>qrs_peak\<close> of its last round; the third argument
  is \<open>None\<close> while \<open>qrs_peak\<close> is unbound.
\<close>

fun qrs_peak_loop ::
  "(real list \<Rightarrow> nat list) \<Rightarrow> real list option \<Rightarrow> int list \<Rightarrow> (int \<times> nat list) option
     \<Rightarrow> error + (int \<times> nat list) option" where
  "qrs_peak_loop find_peaks ecg [] bound = Inr bound"
| "qrs_peak_loop find_peaks ecg (r_peak # rest) bound =
     (let search_start = r_peak;
          search_end = PyFloat (real_of_int r_peak + 100)
      in case load_global ecg of
           Inl e \<Rightarrow> Inl e
         | Inr ecg_data \<Rightarrow>
            (case slice_window ecg_data (PyInt search_start) search_end of
               Inl e \<Rightarrow> Inl e
             | Inr window \<Rightarrow>
                 qrs_peak_loop find_peaks ecg rest (Some (search_start, find_peaks window))))"

text \<open>\<open>np.mean\<close> of a list of floats that may hold infinities or NaN.\<close>

definition np_mean_floats :: "npfloat list \<Rightarrow> npfloat" where
  "np_mean_floats xs = float_div (foldl float_add (Finite 0) xs) (Finite (real (length xs)))"

text \<open>
  Lines 166 to 173, the classification of the matched pairs:
  \<^verbatim>\<open>
  pr_intervals = [(qrs_peak - p_peak) / sampling_rate
                  for p_peak, qrs_peak in zip(p_peak_indices, qrs_peak_indices)]
  mean_pr_interval = np.mean(pr_intervals)
  if abs(mean_pr_interval - 0.2) > 0.04:
      return "Abnormal"
  return "Normal"
  \<close>
\<close>

definition pr_interval_status :: "pynum list \<Rightarrow> int list \<Rightarrow> int \<Rightarrow> string" where
  "pr_interval_status p_peak_indices qrs_peak_indices sampling_rate =
     (let pr_intervals =
            map (\<lambda>(p_peak, qrs_peak).
                   float_div (Finite (real_of_int qrs_peak - pynum_val p_peak))
                             (Finite (real_of_int sampling_rate)))
                (zip p_peak_indices qrs_peak_indices);
          mean_pr_interval = np_mean_floats pr_intervals
      in if float_abs_gt (float_sub mean_pr_interval (Finite (2 / 10))) (4 / 100)
         then ''Abnormal'' else ''Normal'')"

text \<open>
  The function, lines 140 to 173. The test \<open>len(qrs_peak) > 0\<close> stands after the second
  loop, not inside it: it reads \<open>qrs_peak\<close> of the last round and raises
  UnboundLocalError when the loop never ran. The parameters \<open>rr_intervals\<close> and
  \<open>threshold\<close> are not used by the body.
\<close>

definition analyze_pr_interval ::
  "pr_globals \<Rightarrow> (real list \<Rightarrow> nat list) \<Rightarrow> real list \<Rightarrow> int \<Rightarrow> real \<Rightarrow> error + string" where
  "analyze_pr_interval g find_peaks rr_intervals sampling_rate threshold =
     (case load_global (g_r_peak_indices g) of
        Inl e \<Rightarrow> Inl e
      | Inr r_peak_indices \<Rightarrow>
         (case p_peak_loop find_peaks (g_ecg_data g) r_peak_indices [] of
            Inl e \<Rightarrow> Inl e
          | Inr p_peak_indices \<Rightarrow>
             (case qrs_peak_loop find_peaks (g_ecg_data g) r_peak_indices None of
                Inl e \<Rightarrow> Inl e
              | Inr None \<Rightarrow> Inl UnboundLocalError
              | Inr (Some (search_start, qrs_peak)) \<Rightarrow>
                 (let qrs_peak_indices =
                        (if length qrs_peak > 0 then [search_start + int (qrs_peak ! 0)]
                         else [])
                  in Inr (pr_interval_status p_peak_indices qrs_peak_indices
                            sampling_rate)))))"

text \<open>
  An instance of the parameter \<open>find_peaks\<close> for concrete runs: the detector on windows
  in which it reports no peak. The runs below raise before any window is searched.
\<close>

definition find_peaks_none :: "real list \<Rightarrow> nat list" where
  "find_peaks_none window = []"

section \<open>ecgDenoising.py: calculateSTDev_SNR\<close>

text \<open>
  The statement on line 81 reads \<open>signal\<close>, \<open>peaks\<close> and \<open>denoised_ecg\<close>, which are
  neither parameters nor locals of the function; the module binds none of them.
  \<open>snr_globals\<close> holds what the three names are bound to, as \<open>pr_globals\<close> does above.
\<close>

record snr_globals =
  g_signal :: "real list option"
  g_peaks :: "int list option"
  g_denoised_ecg :: "real list option"

definition ecgDenoising_globals :: snr_globals where
  "ecgDenoising_globals = \<lparr>g_signal = None, g_peaks = None, g_denoised_ecg = None\<rparr>"

text \<open>
  \<^verbatim>\<open>
  snrAtPeaks = 10 * np.log10(np.sum(signal[peaks] ** 2) / np.sum((signal - denoised_ecg) ** 2))
  \<close>
  The value is not used afterwards; the statement matters by the exceptions it can
  raise. The names are loaded from left to right; \<open>signal[peaks]\<close> raises IndexError for
  an index outside \<open>[-len, len)\<close>; the subtraction raises ValueError for arrays of
  different lengths that do not broadcast. The division and the logarithm only warn.
\<close>

definition snrAtPeaks :: "snr_globals \<Rightarrow> error + unit" where
  "snrAtPeaks g =
     (case load_global (g_signal g) of
        Inl e \<Rightarrow> Inl e
      | Inr signal \<Rightarrow>
         (case load_global (g_peaks g) of
            Inl e \<Rightarrow> Inl e
          | Inr peaks \<Rightarrow>
             (if \<not> list_all (\<lambda>p. - int (length signal) \<le> p \<and> p < int (length signal)) peaks
              then Inl IndexError
              else
                (case load_global (g_denoised_ecg g) of
                   Inl e \<Rightarrow> Inl e
                 | Inr denoised_ecg \<Rightarrow>
                    (if length signal \<noteq> length denoised_ecg
                        \<and> length signal \<noteq> 1 \<and> length denoised_ecg \<noteq> 1
                     then Inl ValueError else Inr ())))))"

text \<open>
  The matrix is given by its rows. \<open>np.asanyarray\<close> raises ValueError for rows of
  different lengths. \<open>lanes\<close> are the one-dimensional arrays along the axis: the columns
  for axis 0 (or -2), the rows for axis 1 (or -1); another axis raises AxisError, a
  ValueError.
\<close>

definition np_asanyarray :: "real list list \<Rightarrow> error + real list list" where
  "np_asanyarray arr =
     (case arr of
        [] \<Rightarrow> Inr arr
      | r # rest \<Rightarrow>
          (if list_all (\<lambda>t. length t = length r) rest then Inr arr else Inl ValueError))"

definition lanes :: "real list list \<Rightarrow> int \<Rightarrow> error + real list list" where
  "lanes arr axis =
     (if axis = 0 \<or> axis = - 2 then Inr (transpose arr)
      else if axis = 1 \<or> axis = - 1 then Inr arr
      else Inl ValueError)"

text \<open>\<open>np.where(sd == 0, 0, m / sd)\<close>, element by element.\<close>

definition snr_where :: "npfloat list \<Rightarrow> npfloat list \<Rightarrow> npfloat list" where
  "snr_where m sd =
     map (\<lambda>(mi, sdi). if sdi = Finite 0 then Finite 0 else float_div mi sdi) (zip m sd)"

definition calculateSTDev_SNR ::
  "snr_globals \<Rightarrow> real list list \<Rightarrow> int \<Rightarrow> int \<Rightarrow> error + npfloat list" where
  "calculateSTDev_SNR g arr axis ddof =
     (case np_asanyarray arr of
        Inl e \<Rightarrow> Inl e
      | Inr arr \<Rightarrow>
         (case lanes arr axis of
            Inl e \<Rightarrow> Inl e
          | Inr ls \<Rightarrow>
             (let m = map np_mean ls;
                  sd = map (\<lambda>l. np_std l ddof) ls
              in case snrAtPeaks g of
                   Inl e \<Rightarrow> Inl e
                 | Inr u \<Rightarrow> Inr (snr_where m sd))))"

section \<open>Properties of swtDenoise\<close>

subsection \<open>The coefficient loop\<close>

lemma sqrt2_le_2: "sqrt 2 \<le> (2::real)"
proof -
  have "sqrt 2 \<le> sqrt (2\<^sup>2)" by (subst real_sqrt_le_iff) simp
  then show ?thesis by simp
qed

lemma sqrt2_le_4: "sqrt 2 \<le> (4::real)"
  using sqrt2_le_2 by linarith

lemma neg1_le_2_sqrt2: "- 1 \<le> 2 / sqrt (2::real)"
proof -
  have "0 \<le> 2 / sqrt (2::real)" by simp
  then show ?thesis by linarith
qed

lemma gate_loop_length: "length (gate_loop t ks cD) = length cD"
  by (induction ks arbitrary: cD) auto

lemma gate_loop_nth:
  "\<forall>k\<in>set ks. k < length cD \<Longrightarrow> i < length cD \<Longrightarrow>
   gate_loop t ks cD ! i = (if i \<in> set ks \<and> \<bar>cD ! i\<bar> \<ge> t then 0 else cD ! i)"
proof (induction ks arbitrary: cD)
  case Nil
  then show ?case by simp
next
  case (Cons k ks)
  then show ?case
    by (auto simp: nth_list_update)
qed

lemma gate_detail_length: "length (gate_detail t cD) = length cD"
  by (simp add: gate_detail_def gate_loop_length)

text \<open>Every coefficient before the last one is gated.\<close>

lemma gate_detail_nth:
  assumes "k + 1 < length cD"
  shows "gate_detail t cD ! k = (if \<bar>cD ! k\<bar> \<ge> t then 0 else cD ! k)"
proof -
  have "\<forall>j\<in>set [0 ..< length cD - 1]. j < length cD" by auto
  moreover have "k < length cD" using assms by simp
  moreover have "k \<in> set [0 ..< length cD - 1]" using assms by auto
  ultimately show ?thesis
    unfolding gate_detail_def by (simp add: gate_loop_nth del: set_upt)
qed

text \<open>The range stops one short, so the last coefficient is never touched.\<close>

lemma gate_detail_last:
  assumes "cD \<noteq> []"
  shows "last (gate_detail t cD) = last cD"
proof -
  have "\<forall>j\<in>set [0 ..< length cD - 1]. j < length cD" by auto
  moreover have "length cD - 1 < length cD" using assms by simp
  moreover have "length cD - 1 \<notin> set [0 ..< length cD - 1]" by auto
  ultimately have "gate_loop t [0 ..< length cD - 1] cD ! (length cD - 1) = cD ! (length cD - 1)"
    by (simp add: gate_loop_nth del: set_upt)
  moreover have "gate_detail t cD \<noteq> []"
    using assms gate_detail_length[of t cD] by auto
  ultimately show ?thesis
    using assms by (simp add: last_conv_nth gate_detail_length) (simp add: gate_detail_def)
qed

lemma gate_detail_zero_threshold:
  "k + 1 < length cD \<Longrightarrow> gate_detail 0 cD ! k = 0"
  by (simp add: gate_detail_nth)

subsection \<open>Single level\<close>

text \<open>
  Claim C1 (every first-level detail coefficient with \<open>|c| >= threshold\<close> is zeroed, the
  last one included). The code run on the signal \<open>[1, 3, 5, 9]\<close> with \<open>'db1'\<close>, level 1
  and threshold 1: the detail coefficients are \<open>-2 / sqrt 2\<close> and \<open>-4 / sqrt 2\<close>, both of
  absolute value at least 1; the loop zeroes the first and keeps the last, and the
  reconstruction is \<open>[2, 2, 5, 9]\<close>, where zeroing both would give \<open>[2, 2, 7, 7]\<close>.
\<close>

theorem swtDenoise_level1_keeps_last_coefficient:
  "dwt pywt_db1 [1, 3, 5, 9] = Inr ([4 / sqrt 2, 14 / sqrt 2], [- 2 / sqrt 2, - 4 / sqrt 2])
   \<and> 1 \<le> \<bar>- 4 / sqrt 2 :: real\<bar>
   \<and> gate_detail 1 [- 2 / sqrt 2, - 4 / sqrt 2] = [0, - 4 / sqrt 2]
   \<and> swtDenoise pywt_db1 [1, 3, 5, 9] 1 1 = Inr [2, 2, 5, 9]
   \<and> idwt pywt_db1 [4 / sqrt 2, 14 / sqrt 2] [0, 0] = Inr [2, 2, 7, 7]"
  by (simp add: swtDenoise_def pywt_db1_def haar_dwt_def haar_idwt_def gate_detail_def
      upt_rec sqrt2_le_2 sqrt2_le_4)


subsection \<open>Several levels\<close>

text \<open>
  At db1 the decomposition of level \<open>n >= 1\<close> has \<open>n + 1\<close> entries and the first-level
  detail, the detail of \<open>dwt\<close> on the signal itself, is the last of them.
\<close>

lemma haar_wavedec_loop_order:
  "haar_wavedec_loop n a ds = Inr cs \<Longrightarrow> length cs = Suc n + length ds \<and> drop (Suc n) cs = ds"
proof (induction n arbitrary: a ds)
  case 0
  then show ?case by auto
next
  case (Suc n)
  from Suc.prems obtain a' d where step: "haar_wavedec_loop n a' (d # ds) = Inr cs"
    by (auto simp: haar_dwt_def split: if_splits prod.splits)
  from Suc.IH [OF step]
  have l: "length cs = Suc n + length (d # ds)" and dr: "drop (Suc n) cs = d # ds" by auto
  have "drop (Suc (Suc n)) cs = tl (drop (Suc n) cs)"
    by (simp add: drop_Suc tl_drop)
  then show ?case using l dr by simp
qed

lemma haar_wavedec_first_level_last:
  assumes "1 \<le> level" and "haar_wavedec data level = Inr cs"
  shows "length cs = nat level + 1 \<and> cs ! nat level = snd (haar_analysis data)"
proof -
  obtain n where n: "nat level = Suc n" using assms(1) by (cases "nat level") auto
  from assms have run: "haar_wavedec_loop (Suc n) data [] = Inr cs"
    by (simp add: haar_wavedec_def n)
  then have ne: "data \<noteq> []" by (auto simp: haar_dwt_def split: if_splits)
  obtain a d where ad: "haar_analysis data = (a, d)" by (cases "haar_analysis data")
  from run ne ad have "haar_wavedec_loop n a [d] = Inr cs" by (simp add: haar_dwt_def)
  from haar_wavedec_loop_order [OF this]
  have l: "length cs = Suc n + 1" and dr: "drop (Suc n) cs = [d]" by auto
  have "Suc n < length cs" using l by simp
  then have "drop (Suc n) cs = cs ! Suc n # drop (Suc (Suc n)) cs"
    by (rule Cons_nth_drop_Suc [symmetric])
  then have "cs ! Suc n = d" using dr by simp
  then show ?thesis using l n ad by simp
qed

text \<open>
  Claim C2 as stated (for a level above 1 the gate is applied to the first-level, finest
  detail sequence only, and the deeper levels are untouched) fails. \<open>wavedec\<close> returns
  \<open>[cA_n, cD_n, ..., cD_1]\<close>, so entry 1 is the detail of the deepest level. On
  \<open>[1, 3, 5, 9, 2, 4, 6, 12]\<close> with \<open>'db1'\<close>, level 2 and threshold 1 the first-level
  detail (the detail of \<open>dwt\<close> on the signal, entry 2 of the list) reaches \<open>waverec\<close>
  unchanged although its first coefficient has absolute value at least 1, and the
  level-2 detail \<open>[-5, -6]\<close> is changed to \<open>[0, -6]\<close>.
\<close>

theorem swtDenoise_multilevel_counterexample:
  "wavedec pywt_db1 [1, 3, 5, 9, 2, 4, 6, 12] 2
      = Inr [[9, 12], [- 5, - 6], [- 2 / sqrt 2, - 4 / sqrt 2, - 2 / sqrt 2, - 6 / sqrt 2]]
   \<and> dwt pywt_db1 [1, 3, 5, 9, 2, 4, 6, 12]
      = Inr ([4 / sqrt 2, 14 / sqrt 2, 6 / sqrt 2, 18 / sqrt 2],
             [- 2 / sqrt 2, - 4 / sqrt 2, - 2 / sqrt 2, - 6 / sqrt 2])
   \<and> 1 \<le> \<bar>- 2 / sqrt 2 :: real\<bar>
   \<and> swtDenoise pywt_db1 [1, 3, 5, 9, 2, 4, 6, 12] 2 1
      = waverec pywt_db1
          [[9, 12], [0, - 6], [- 2 / sqrt 2, - 4 / sqrt 2, - 2 / sqrt 2, - 6 / sqrt 2]]
   \<and> swtDenoise pywt_db1 [1, 3, 5, 9, 2, 4, 6, 12] 2 1
      = Inr [7 / 2, 11 / 2, 5 / 2, 13 / 2, 2, 4, 6, 12]"
  by (simp add: swtDenoise_def pywt_db1_def haar_wavedec_def haar_waverec_def haar_dwt_def
      haar_idwt_def gate_detail_def upt_rec numeral_2_eq_2 sqrt2_le_2)

text \<open>
  Claim C2, amended: for a level other than 1, when the decomposition succeeds with at
  least two entries, \<open>swtDenoise\<close> reconstructs from the decomposition list with entry 1
  alone rewritten (the detail sequence of the deepest level, in the order of
  \<open>wavedec\<close>). The approximation (entry 0) and every other detail sequence, the
  first-level one included, are passed on unchanged. In entry 1 the length is kept and
  every coefficient before the last is zeroed when its absolute value is at least the
  threshold and kept otherwise.
\<close>

theorem swtDenoise_multilevel_gates_entry_1:
  assumes "levelChoose \<noteq> 1"
    and "Wavelet lib = Inr u"
    and "wavedec lib signal levelChoose = Inr cs"
    and "2 \<le> length cs"
  shows "\<exists>cs'. swtDenoise lib signal levelChoose thr = waverec lib cs'
           \<and> length cs' = length cs
           \<and> (\<forall>i<length cs. i \<noteq> 1 \<longrightarrow> cs' ! i = cs ! i)
           \<and> length (cs' ! 1) = length (cs ! 1)
           \<and> (\<forall>k. k + 1 < length (cs ! 1) \<longrightarrow>
                  cs' ! 1 ! k = (if thr \<le> \<bar>cs ! 1 ! k\<bar> then 0 else cs ! 1 ! k))"
proof -
  let ?cs' = "cs[1 := gate_detail thr (cs ! 1)]"
  have run: "swtDenoise lib signal levelChoose thr = waverec lib ?cs'"
    using assms by (simp add: swtDenoise_def)
  have one: "?cs' ! 1 = gate_detail thr (cs ! 1)"
    using assms(4) by simp
  have "length ?cs' = length cs" by simp
  moreover have "\<forall>i<length cs. i \<noteq> 1 \<longrightarrow> ?cs' ! i = cs ! i" by simp
  moreover have "length (?cs' ! 1) = length (cs ! 1)"
    unfolding one by (rule gate_detail_length)
  moreover have "\<forall>k. k + 1 < length (cs ! 1) \<longrightarrow>
      ?cs' ! 1 ! k = (if thr \<le> \<bar>cs ! 1 ! k\<bar> then 0 else cs ! 1 ! k)"
    unfolding one by (simp add: gate_detail_nth)
  ultimately show ?thesis using run by blast
qed

theorem swtDenoise_multilevel_gates_entry_1_witness:
  "(2::int) \<noteq> 1 \<and> Wavelet pywt_db1 = Inr ()
   \<and> wavedec pywt_db1 [1, 3, 5, 9, 2, 4, 6, 12] 2
      = Inr [[9, 12], [- 5, - 6], [- 2 / sqrt 2, - 4 / sqrt 2, - 2 / sqrt 2, - 6 / sqrt 2]]
   \<and> 2 \<le> length
          [[9, 12], [- 5, - 6], [- 2 / sqrt 2, - 4 / sqrt 2, - 2 / sqrt 2, - 6 / sqrt 2 :: real]]
   \<and> (\<exists>cs'. swtDenoise pywt_db1 [1, 3, 5, 9, 2, 4, 6, 12] 2 1 = waverec pywt_db1 cs'
         \<and> cs' ! 0 = [9, 12]
         \<and> cs' ! 2 = [- 2 / sqrt 2, - 4 / sqrt 2, - 2 / sqrt 2, - 6 / sqrt 2]
         \<and> cs' ! 1 ! 0 = 0)"
proof -
  let ?cs = "[[9, 12], [- 5, - 6],
              [- 2 / sqrt 2, - 4 / sqrt 2, - 2 / sqrt 2, - 6 / sqrt 2 :: real]]"
  have h1: "(2::int) \<noteq> 1" by simp
  have h2: "Wavelet pywt_db1 = Inr ()" by (simp add: pywt_db1_def)
  have h3: "wavedec pywt_db1 [1, 3, 5, 9, 2, 4, 6, 12] 2 = Inr ?cs"
    by (simp add: pywt_db1_def haar_wavedec_def haar_dwt_def numeral_2_eq_2)
  have h4: "2 \<le> length ?cs" by simp
  from swtDenoise_multilevel_gates_entry_1 [OF h1 h2 h3 h4, of 1]
  obtain cs' where c:
    "swtDenoise pywt_db1 [1, 3, 5, 9, 2, 4, 6, 12] 2 1 = waverec pywt_db1 cs'"
    "\<forall>i<length ?cs. i \<noteq> 1 \<longrightarrow> cs' ! i = ?cs ! i"
    "\<forall>k. k + 1 < length (?cs ! 1) \<longrightarrow>
         cs' ! 1 ! k = (if 1 \<le> \<bar>?cs ! 1 ! k\<bar> then 0 else ?cs ! 1 ! k)"
    by blast
  have "cs' ! 0 = [9, 12]" using c(2) by simp
  moreover have "cs' ! 2 = [- 2 / sqrt 2, - 4 / sqrt 2, - 2 / sqrt 2, - 6 / sqrt 2]"
    using c(2) by simp
  moreover have "cs' ! 1 ! 0 = 0" using c(3) by simp
  ultimately show ?thesis using h1 h2 h3 h4 c(1) by blast
qed

subsection \<open>Threshold 0\<close>

text \<open>
  Claim C3 as stated (with threshold 0 the reconstruction equals the original signal up
  to a small tolerance) fails: every absolute value is at least 0, so the gate zeroes
  every coefficient it tests. On \<open>[1, 3, 5, 9]\<close> with \<open>'db1'\<close>, level 1 and threshold 0
  the result is \<open>[2, 2, 5, 9]\<close>, off by 1 in the first two samples.
\<close>

theorem swtDenoise_threshold_zero_counterexample:
  "swtDenoise pywt_db1 [1, 3, 5, 9] 1 0 = Inr [2, 2, 5, 9]
   \<and> [2, 2, 5, 9] \<noteq> [1, 3, 5, 9 :: real]"
  by (simp add: swtDenoise_def pywt_db1_def haar_dwt_def haar_idwt_def gate_detail_def upt_rec)

text \<open>
  Claim C3, amended: with threshold 0 the result is the inverse transform of the
  coefficients with the gated detail sequence zeroed in every position before its last
  (the detail of \<open>dwt\<close> for level 1, entry 1 of the decomposition list otherwise); all
  other coefficient sequences are unchanged.
\<close>

theorem swtDenoise_threshold_zero:
  "(Wavelet lib = Inr u \<and> dwt lib signal = Inr (cA, cD) \<longrightarrow>
      (\<exists>cD'. swtDenoise lib signal 1 0 = idwt lib cA cD'
          \<and> length cD' = length cD
          \<and> (\<forall>k. k + 1 < length cD \<longrightarrow> cD' ! k = 0)))
   \<and> (levelChoose \<noteq> 1 \<and> Wavelet lib = Inr u \<and> wavedec lib signal levelChoose = Inr cs
        \<and> 2 \<le> length cs \<longrightarrow>
      (\<exists>cs'. swtDenoise lib signal levelChoose 0 = waverec lib cs'
          \<and> length cs' = length cs
          \<and> (\<forall>i<length cs. i \<noteq> 1 \<longrightarrow> cs' ! i = cs ! i)
          \<and> length (cs' ! 1) = length (cs ! 1)
          \<and> (\<forall>k. k + 1 < length (cs ! 1) \<longrightarrow> cs' ! 1 ! k = 0)))"
proof (intro conjI impI)
  assume a: "Wavelet lib = Inr u \<and> dwt lib signal = Inr (cA, cD)"
  have "swtDenoise lib signal 1 0 = idwt lib cA (gate_detail 0 cD)"
    using a by (simp add: swtDenoise_def)
  moreover have "length (gate_detail 0 cD) = length cD" by (rule gate_detail_length)
  moreover have "\<forall>k. k + 1 < length cD \<longrightarrow> gate_detail 0 cD ! k = 0"
    by (simp add: gate_detail_zero_threshold)
  ultimately show "\<exists>cD'. swtDenoise lib signal 1 0 = idwt lib cA cD'
          \<and> length cD' = length cD \<and> (\<forall>k. k + 1 < length cD \<longrightarrow> cD' ! k = 0)"
    by blast
next
  assume a: "levelChoose \<noteq> 1 \<and> Wavelet lib = Inr u
        \<and> wavedec lib signal levelChoose = Inr cs \<and> 2 \<le> length cs"
  let ?cs' = "cs[1 := gate_detail 0 (cs ! 1)]"
  have run: "swtDenoise lib signal levelChoose 0 = waverec lib ?cs'"
    using a by (simp add: swtDenoise_def)
  have one: "?cs' ! 1 = gate_detail 0 (cs ! 1)"
    using a by simp
  have "length ?cs' = length cs" by simp
  moreover have "\<forall>i<length cs. i \<noteq> 1 \<longrightarrow> ?cs' ! i = cs ! i" by simp
  moreover have "length (?cs' ! 1) = length (cs ! 1)"
    unfolding one by (rule gate_detail_length)
  moreover have "\<forall>k. k + 1 < length (cs ! 1) \<longrightarrow> ?cs' ! 1 ! k = 0"
    unfolding one by (simp add: gate_detail_zero_threshold)
  ultimately show "\<exists>cs'. swtDenoise lib signal levelChoose 0 = waverec lib cs'
          \<and> length cs' = length cs
          \<and> (\<forall>i<length cs. i \<noteq> 1 \<longrightarrow> cs' ! i = cs ! i)
          \<and> length (cs' ! 1) = length (cs ! 1)
          \<and> (\<forall>k. k + 1 < length (cs ! 1) \<longrightarrow> cs' ! 1 ! k = 0)"
    using run by blast
qed

theorem swtDenoise_threshold_zero_witness:
  "Wavelet pywt_db1 = Inr ()
   \<and> dwt pywt_db1 [1, 3, 5, 9] = Inr ([4 / sqrt 2, 14 / sqrt 2], [- 2 / sqrt 2, - 4 / sqrt 2])
   \<and> (\<exists>cD'. swtDenoise pywt_db1 [1, 3, 5, 9] 1 0 = idwt pywt_db1 [4 / sqrt 2, 14 / sqrt 2] cD'
         \<and> length cD' = 2 \<and> cD' ! 0 = 0)
   \<and> (2::int) \<noteq> 1
   \<and> wavedec pywt_db1 [1, 3, 5, 9, 2, 4, 6, 12] 2
      = Inr [[9, 12], [- 5, - 6], [- 2 / sqrt 2, - 4 / sqrt 2, - 2 / sqrt 2, - 6 / sqrt 2]]
   \<and> (\<exists>cs'. swtDenoise pywt_db1 [1, 3, 5, 9, 2, 4, 6, 12] 2 0 = waverec pywt_db1 cs'
         \<and> cs' ! 0 = [9, 12]
         \<and> cs' ! 2 = [- 2 / sqrt 2, - 4 / sqrt 2, - 2 / sqrt 2, - 6 / sqrt 2]
         \<and> cs' ! 1 ! 0 = 0)"
proof -
  let ?cA = "[4 / sqrt 2, 14 / sqrt 2 :: real]"
  let ?cD = "[- 2 / sqrt 2, - 4 / sqrt 2 :: real]"
  let ?cs = "[[9, 12], [- 5, - 6],
              [- 2 / sqrt 2, - 4 / sqrt 2, - 2 / sqrt 2, - 6 / sqrt 2 :: real]]"
  have h1: "Wavelet pywt_db1 = Inr ()" by (simp add: pywt_db1_def)
  have h2: "dwt pywt_db1 [1, 3, 5, 9] = Inr (?cA, ?cD)"
    by (simp add: pywt_db1_def haar_dwt_def)
  have h3: "(2::int) \<noteq> 1" by simp
  have h4: "wavedec pywt_db1 [1, 3, 5, 9, 2, 4, 6, 12] 2 = Inr ?cs"
    by (simp add: pywt_db1_def haar_wavedec_def haar_dwt_def numeral_2_eq_2)
  have h5: "2 \<le> length ?cs" by simp
  note inst1 = swtDenoise_threshold_zero
      [of pywt_db1 "()" "[1, 3, 5, 9]" ?cA ?cD]
  note inst2 = swtDenoise_threshold_zero
      [of pywt_db1 "()" "[1, 3, 5, 9, 2, 4, 6, 12]" _ _ 2 ?cs]
  from inst1 h1 h2
  obtain cD' where d:
    "swtDenoise pywt_db1 [1, 3, 5, 9] 1 0 = idwt pywt_db1 ?cA cD'"
    "length cD' = length ?cD" "\<forall>k. k + 1 < length ?cD \<longrightarrow> cD' ! k = 0"
    by blast
  from inst2 h1 h3 h4 h5
  obtain cs' where c:
    "swtDenoise pywt_db1 [1, 3, 5, 9, 2, 4, 6, 12] 2 0 = waverec pywt_db1 cs'"
    "\<forall>i<length ?cs. i \<noteq> 1 \<longrightarrow> cs' ! i = ?cs ! i"
    "\<forall>k. k + 1 < length (?cs ! 1) \<longrightarrow> cs' ! 1 ! k = 0"
    by blast
  have "length cD' = 2" using d(2) by simp
  moreover have "cD' ! 0 = 0" using d(3) by simp
  moreover have "cs' ! 0 = [9, 12]" using c(2) by simp
  moreover have "cs' ! 2 = [- 2 / sqrt 2, - 4 / sqrt 2, - 2 / sqrt 2, - 6 / sqrt 2]"
    using c(2) by simp
  moreover have "cs' ! 1 ! 0 = 0" using c(3) by simp
  ultimately show ?thesis using h1 h2 h3 h4 d(1) c(1) by blast
qed

subsection \<open>Parameter checks\<close>

text \<open>
  Claim C4 as stated (InvalidParameterError for a level below 1, a level above the
  maximum for the signal length, or a negative threshold) fails: the function has no
  check on its parameters. With threshold \<open>-1\<close>, level 1 and \<open>'db1'\<close> the signal
  \<open>[1, 3, 5, 9]\<close> is processed and a result is returned.
\<close>

theorem swtDenoise_no_validation_counterexample:
  "swtDenoise pywt_db1 [1, 3, 5, 9] 1 (- 1) = Inr [2, 2, 5, 9]"
  by (simp add: swtDenoise_def pywt_db1_def haar_dwt_def haar_idwt_def gate_detail_def upt_rec
      neg1_le_2_sqrt2)

lemma haar_analysis_lengths:
  "length (fst (haar_analysis xs)) = (length xs + 1) div 2
   \<and> length (snd (haar_analysis xs)) = (length xs + 1) div 2"
  by (induction xs rule: haar_analysis.induct) (auto split: prod.splits)

lemma swtDenoise_db1_level1_returns:
  assumes "signal \<noteq> []"
  shows "\<exists>out. swtDenoise pywt_db1 signal 1 thr = Inr out"
proof -
  obtain a d where ad: "haar_analysis signal = (a, d)" by (cases "haar_analysis signal")
  from haar_analysis_lengths [of signal] ad
  have la: "length a = (length signal + 1) div 2" and ld: "length d = (length signal + 1) div 2"
    by auto
  have "0 < length signal" using assms by simp
  then have "0 < (length signal + 1) div 2" by simp
  then have ne: "a \<noteq> []" using la by auto
  have "length a = length (gate_detail thr d)" using la ld by (simp add: gate_detail_length)
  then show ?thesis
    using assms ad ne
    by (simp add: swtDenoise_def pywt_db1_def haar_dwt_def haar_idwt_def)
qed

text \<open>
  Claim C4, amended: \<open>swtDenoise\<close> validates nothing itself. A negative threshold is
  accepted: the call returns what the inverse transform returns on the coefficients in
  which every coefficient before the last of the gated sequence is zeroed (the detail of
  \<open>dwt\<close> at level 1, entry 1 of the decomposition list otherwise), and at db1 and level 1
  that is a result for every non-empty signal. Whenever the call raises, the exception
  is the one raised by a PyWavelets call (\<open>pywt.Wavelet\<close>, \<open>dwt\<close>, \<open>idwt\<close>, \<open>wavedec\<close>,
  \<open>waverec\<close>) or, at a level other than 1 whose decomposition list has fewer than two
  entries, the IndexError of reading entry 1; the level is not compared with a maximum.
  A level below 1 does raise at db1, though not an InvalidParameterError: a negative
  level the ValueError of \<open>wavedec\<close>, level 0 the IndexError.
\<close>

theorem swtDenoise_no_parameter_validation:
  "(thr < 0 \<and> Wavelet lib = Inr u \<and> dwt lib signal = Inr (cA, cD) \<longrightarrow>
      (\<exists>cD'. swtDenoise lib signal 1 thr = idwt lib cA cD'
          \<and> length cD' = length cD
          \<and> (\<forall>k. k + 1 < length cD \<longrightarrow> cD' ! k = 0)))
   \<and> (thr < 0 \<and> levelChoose \<noteq> 1 \<and> Wavelet lib = Inr u
        \<and> wavedec lib signal levelChoose = Inr cs \<and> 2 \<le> length cs \<longrightarrow>
      (\<exists>cs'. swtDenoise lib signal levelChoose thr = waverec lib cs'
          \<and> length cs' = length cs
          \<and> (\<forall>i<length cs. i \<noteq> 1 \<longrightarrow> cs' ! i = cs ! i)
          \<and> length (cs' ! 1) = length (cs ! 1)
          \<and> (\<forall>k. k + 1 < length (cs ! 1) \<longrightarrow> cs' ! 1 ! k = 0)))
   \<and> (swtDenoise lib signal levelChoose thr = Inl e \<longrightarrow>
        (levelChoose = 1
          \<and> (dwt lib signal = Inl e
              \<or> (\<exists>a d. dwt lib signal = Inr (a, d)
                    \<and> (Wavelet lib = Inl e
                        \<or> (\<exists>d'. length d' = length d \<and> idwt lib a d' = Inl e)))))
        \<or> (levelChoose \<noteq> 1
          \<and> (Wavelet lib = Inl e \<or> wavedec lib signal levelChoose = Inl e
              \<or> (\<exists>c. wavedec lib signal levelChoose = Inr c
                    \<and> ((length c < 2 \<and> e = IndexError)
                        \<or> (2 \<le> length c
                            \<and> (\<exists>c'. length c' = length c \<and> waverec lib c' = Inl e)))))))
   \<and> (signal \<noteq> [] \<longrightarrow> (\<exists>out. swtDenoise pywt_db1 signal 1 thr = Inr out))
   \<and> (levelChoose < 0 \<longrightarrow> swtDenoise pywt_db1 signal levelChoose thr = Inl ValueError)
   \<and> swtDenoise pywt_db1 signal 0 thr = Inl IndexError"
proof (intro conjI impI)
  assume a: "thr < 0 \<and> Wavelet lib = Inr u \<and> dwt lib signal = Inr (cA, cD)"
  have "swtDenoise lib signal 1 thr = idwt lib cA (gate_detail thr cD)"
    using a by (simp add: swtDenoise_def)
  moreover have "length (gate_detail thr cD) = length cD" by (rule gate_detail_length)
  moreover have "\<forall>k. k + 1 < length cD \<longrightarrow> gate_detail thr cD ! k = 0"
  proof (intro allI impI)
    fix k assume k: "k + 1 < length cD"
    have "thr \<le> \<bar>cD ! k\<bar>" using a by linarith
    then show "gate_detail thr cD ! k = 0" using k by (simp add: gate_detail_nth)
  qed
  ultimately show "\<exists>cD'. swtDenoise lib signal 1 thr = idwt lib cA cD'
          \<and> length cD' = length cD \<and> (\<forall>k. k + 1 < length cD \<longrightarrow> cD' ! k = 0)"
    by blast
next
  assume a: "thr < 0 \<and> levelChoose \<noteq> 1 \<and> Wavelet lib = Inr u
        \<and> wavedec lib signal levelChoose = Inr cs \<and> 2 \<le> length cs"
  let ?cs' = "cs[1 := gate_detail thr (cs ! 1)]"
  have run: "swtDenoise lib signal levelChoose thr = waverec lib ?cs'"
    using a by (simp add: swtDenoise_def)
  have one: "?cs' ! 1 = gate_detail thr (cs ! 1)" using a by simp
  have "length ?cs' = length cs" by simp
  moreover have "\<forall>i<length cs. i \<noteq> 1 \<longrightarrow> ?cs' ! i = cs ! i" by simp
  moreover have "length (?cs' ! 1) = length (cs ! 1)"
    unfolding one by (rule gate_detail_length)
  moreover have "\<forall>k. k + 1 < length (cs ! 1) \<longrightarrow> ?cs' ! 1 ! k = 0"
  proof (intro allI impI)
    fix k assume k: "k + 1 < length (cs ! 1)"
    have "thr \<le> \<bar>cs ! 1 ! k\<bar>" using a by linarith
    then show "?cs' ! 1 ! k = 0" unfolding one using k by (simp add: gate_detail_nth)
  qed
  ultimately show "\<exists>cs'. swtDenoise lib signal levelChoose thr = waverec lib cs'
          \<and> length cs' = length cs
          \<and> (\<forall>i<length cs. i \<noteq> 1 \<longrightarrow> cs' ! i = cs ! i)
          \<and> length (cs' ! 1) = length (cs ! 1)
          \<and> (\<forall>k. k + 1 < length (cs ! 1) \<longrightarrow> cs' ! 1 ! k = 0)"
    using run by blast
next
  assume err: "swtDenoise lib signal levelChoose thr = Inl e"
  show "(levelChoose = 1
          \<and> (dwt lib signal = Inl e
              \<or> (\<exists>a d. dwt lib signal = Inr (a, d)
                    \<and> (Wavelet lib = Inl e
                        \<or> (\<exists>d'. length d' = length d \<and> idwt lib a d' = Inl e)))))
        \<or> (levelChoose \<noteq> 1
          \<and> (Wavelet lib = Inl e \<or> wavedec lib signal levelChoose = Inl e
              \<or> (\<exists>c. wavedec lib signal levelChoose = Inr c
                    \<and> ((length c < 2 \<and> e = IndexError)
                        \<or> (2 \<le> length c
                            \<and> (\<exists>c'. length c' = length c \<and> waverec lib c' = Inl e))))))"
  proof (cases "levelChoose = 1")
    case True
    show ?thesis
    proof (cases "dwt lib signal")
      case (Inl e')
      then show ?thesis using err True by (simp add: swtDenoise_def)
    next
      case (Inr p)
      obtain a d where p: "p = (a, d)" by (cases p)
      show ?thesis
      proof (cases "Wavelet lib")
        case (Inl e')
        then show ?thesis using err True Inr p by (simp add: swtDenoise_def)
      next
        case w: (Inr u')
        from err True Inr p w have "idwt lib a (gate_detail thr d) = Inl e"
          by (simp add: swtDenoise_def)
        moreover have "length (gate_detail thr d) = length d" by (rule gate_detail_length)
        ultimately show ?thesis using True Inr p by blast
      qed
    qed
  next
    case False
    show ?thesis
    proof (cases "Wavelet lib")
      case (Inl e')
      then show ?thesis using err False by (simp add: swtDenoise_def)
    next
      case w: (Inr u')
      show ?thesis
      proof (cases "wavedec lib signal levelChoose")
        case (Inl e')
        then show ?thesis using err False w by (simp add: swtDenoise_def)
      next
        case (Inr c)
        show ?thesis
        proof (cases "length c < 2")
          case True
          then have "e = IndexError" using err False w Inr by (simp add: swtDenoise_def)
          then show ?thesis using False Inr True by blast
        next
          case long: False
          let ?c' = "c[1 := gate_detail thr (c ! 1)]"
          from err False w Inr long have "waverec lib ?c' = Inl e"
            by (simp add: swtDenoise_def)
          moreover have "length ?c' = length c" by simp
          moreover have "2 \<le> length c" using long by simp
          ultimately show ?thesis using False Inr by blast
        qed
      qed
    qed
  qed
next
  assume "signal \<noteq> []"
  then show "\<exists>out. swtDenoise pywt_db1 signal 1 thr = Inr out"
    by (rule swtDenoise_db1_level1_returns)
next
  assume "levelChoose < 0"
  then show "swtDenoise pywt_db1 signal levelChoose thr = Inl ValueError"
    by (simp add: swtDenoise_def pywt_db1_def haar_wavedec_def)
next
  show "swtDenoise pywt_db1 signal 0 thr = Inl IndexError"
    by (simp add: swtDenoise_def pywt_db1_def haar_wavedec_def)
qed

theorem swtDenoise_no_parameter_validation_witness:
  "(- 1 :: real) < 0 \<and> Wavelet pywt_db1 = Inr ()
   \<and> dwt pywt_db1 [1, 3, 5, 9] = Inr ([4 / sqrt 2, 14 / sqrt 2], [- 2 / sqrt 2, - 4 / sqrt 2])
   \<and> (\<exists>cD'. swtDenoise pywt_db1 [1, 3, 5, 9] 1 (- 1) = idwt pywt_db1 [4 / sqrt 2, 14 / sqrt 2] cD'
         \<and> length cD' = 2 \<and> cD' ! 0 = 0)
   \<and> (2 :: int) \<noteq> 1
   \<and> wavedec pywt_db1 [1, 3, 5, 9, 2, 4, 6, 12] 2
      = Inr [[9, 12], [- 5, - 6], [- 2 / sqrt 2, - 4 / sqrt 2, - 2 / sqrt 2, - 6 / sqrt 2]]
   \<and> (\<exists>cs'. swtDenoise pywt_db1 [1, 3, 5, 9, 2, 4, 6, 12] 2 (- 1) = waverec pywt_db1 cs'
         \<and> cs' ! 0 = [9, 12]
         \<and> cs' ! 2 = [- 2 / sqrt 2, - 4 / sqrt 2, - 2 / sqrt 2, - 6 / sqrt 2]
         \<and> cs' ! 1 ! 0 = 0)
   \<and> [1, 3, 5, 9] \<noteq> ([] :: real list)
   \<and> (\<exists>out. swtDenoise pywt_db1 [1, 3, 5, 9] 1 (- 1) = Inr out)
   \<and> (- 1 :: int) < 0
   \<and> swtDenoise pywt_db1 [1, 3] (- 1) (- 1) = Inl ValueError
   \<and> swtDenoise pywt_db1 [1, 3] 0 (- 1) = Inl IndexError"
proof -
  let ?cA = "[4 / sqrt 2, 14 / sqrt 2 :: real]"
  let ?cD = "[- 2 / sqrt 2, - 4 / sqrt 2 :: real]"
  let ?cs = "[[9, 12], [- 5, - 6],
              [- 2 / sqrt 2, - 4 / sqrt 2, - 2 / sqrt 2, - 6 / sqrt 2 :: real]]"
  have t: "(- 1 :: real) < 0" by simp
  have h1: "Wavelet pywt_db1 = Inr ()" by (simp add: pywt_db1_def)
  have h2: "dwt pywt_db1 [1, 3, 5, 9] = Inr (?cA, ?cD)"
    by (simp add: pywt_db1_def haar_dwt_def)
  have h3: "(2::int) \<noteq> 1" by simp
  have h4: "wavedec pywt_db1 [1, 3, 5, 9, 2, 4, 6, 12] 2 = Inr ?cs"
    by (simp add: pywt_db1_def haar_wavedec_def haar_dwt_def numeral_2_eq_2)
  have h5: "2 \<le> length ?cs" by simp
  have ne: "[1, 3, 5, 9] \<noteq> ([] :: real list)" by simp
  have neg: "(- 1 :: int) < 0" by simp
  note inst1 = swtDenoise_no_parameter_validation
      [of "- 1" pywt_db1 "()" "[1, 3, 5, 9]" ?cA ?cD 1 "[]" ValueError]
  note inst2 = swtDenoise_no_parameter_validation
      [of "- 1" pywt_db1 "()" "[1, 3, 5, 9, 2, 4, 6, 12]" "[]" "[]" 2 ?cs ValueError]
  note inst3 = swtDenoise_no_parameter_validation
      [of "- 1" pywt_db1 "()" "[1, 3]" "[]" "[]" "- 1" "[]" ValueError]
  have p1: "(- 1 :: real) < 0 \<and> Wavelet pywt_db1 = Inr ()
              \<and> dwt pywt_db1 [1, 3, 5, 9] = Inr (?cA, ?cD)"
    using t h1 h2 by (intro conjI)
  from inst1 [THEN conjunct1, THEN mp, OF p1]
  obtain cD' where d:
    "swtDenoise pywt_db1 [1, 3, 5, 9] 1 (- 1) = idwt pywt_db1 ?cA cD'"
    "length cD' = length ?cD" "\<forall>k. k + 1 < length ?cD \<longrightarrow> cD' ! k = 0"
    by (elim exE conjE)
  have p2: "(- 1 :: real) < 0 \<and> (2::int) \<noteq> 1 \<and> Wavelet pywt_db1 = Inr ()
              \<and> wavedec pywt_db1 [1, 3, 5, 9, 2, 4, 6, 12] 2 = Inr ?cs \<and> 2 \<le> length ?cs"
    using t h3 h1 h4 h5 by (intro conjI)
  from inst2 [THEN conjunct2, THEN conjunct1, THEN mp, OF p2]
  obtain cs' where c:
    "swtDenoise pywt_db1 [1, 3, 5, 9, 2, 4, 6, 12] 2 (- 1) = waverec pywt_db1 cs'"
    "length cs' = length ?cs"
    "\<forall>i<length ?cs. i \<noteq> 1 \<longrightarrow> cs' ! i = ?cs ! i"
    "length (cs' ! 1) = length (?cs ! 1)"
    "\<forall>k. k + 1 < length (?cs ! 1) \<longrightarrow> cs' ! 1 ! k = 0"
    by (elim exE conjE)
  from inst1 [THEN conjunct2, THEN conjunct2, THEN conjunct2, THEN conjunct1, THEN mp, OF ne]
  have out: "\<exists>out. swtDenoise pywt_db1 [1, 3, 5, 9] 1 (- 1) = Inr out" .
  from inst3 [THEN conjunct2, THEN conjunct2, THEN conjunct2, THEN conjunct2,
              THEN conjunct1, THEN mp, OF neg]
  have e1: "swtDenoise pywt_db1 [1, 3] (- 1) (- 1) = Inl ValueError" .
  from inst3 [THEN conjunct2, THEN conjunct2, THEN conjunct2, THEN conjunct2, THEN conjunct2]
  have e3: "swtDenoise pywt_db1 [1, 3] 0 (- 1) = Inl IndexError" .
  have l: "length cD' = 2" using d(2) by simp
  have z: "cD' ! 0 = 0" using d(3) by simp
  have c0: "cs' ! 0 = [9, 12]" using c(3) by simp
  have c2: "cs' ! 2 = [- 2 / sqrt 2, - 4 / sqrt 2, - 2 / sqrt 2, - 6 / sqrt 2]"
    using c(3) by simp
  have c1: "cs' ! 1 ! 0 = 0" using c(5) by simp
  have A: "\<exists>cD'. swtDenoise pywt_db1 [1, 3, 5, 9] 1 (- 1) = idwt pywt_db1 ?cA cD'
         \<and> length cD' = 2 \<and> cD' ! 0 = 0"
    using d(1) l z by (intro exI [of _ cD'] conjI)
  have B: "\<exists>cs'. swtDenoise pywt_db1 [1, 3, 5, 9, 2, 4, 6, 12] 2 (- 1) = waverec pywt_db1 cs'
         \<and> cs' ! 0 = [9, 12]
         \<and> cs' ! 2 = [- 2 / sqrt 2, - 4 / sqrt 2, - 2 / sqrt 2, - 6 / sqrt 2]
         \<and> cs' ! 1 ! 0 = 0"
    using c(1) c0 c2 c1 by (intro exI [of _ cs'] conjI)
  show ?thesis
    using t h1 h2 A h3 h4 B ne out neg e1 e3 by (intro conjI)
qed

section \<open>Properties of ecgAnalyses.py\<close>

subsection \<open>calculate_heart_rate\<close>

lemma calculate_heart_rate_short:
  "length r_peak_indices \<le> 1 \<Longrightarrow>
   calculate_heart_rate r_peak_indices sampling_rate = Bare_int 0"
  by (simp add: calculate_heart_rate_def)

text \<open>
  Claim C5 (with at most one peak the result is the pair of 0 and the empty interval
  series, not a bare scalar). The code run on no peak and on one peak returns the bare
  integer \<open>0\<close>; on two peaks it returns a pair, which is what the caller in main.py
  unpacks.
\<close>

theorem calculate_heart_rate_returns_bare_scalar:
  "calculate_heart_rate [] 1000 = Bare_int 0
   \<and> calculate_heart_rate [5] 1000 = Bare_int 0
   \<and> calculate_heart_rate [0, 1000] 1000 = Tuple 60 [1]"
  by (simp add: calculate_heart_rate_def np_diff_def)

subsection \<open>analyze_rhythm\<close>

lemma np_std_empty: "np_std [] 0 = NaN"
  by (simp add: np_std_def np_var_def)

lemma np_std_nonempty:
  assumes "xs \<noteq> []"
  shows "np_std xs 0 = Finite (population_std xs)"
proof -
  have n: "real (length xs) \<noteq> 0" using assms by simp
  have nn: "0 \<le> (\<Sum>v\<leftarrow>xs. (v - sum_list xs / real (length xs))
                        * (v - sum_list xs / real (length xs))) / real (length xs)"
    by (intro divide_nonneg_nonneg sum_list_nonneg) auto
  show ?thesis
    using n nn assms
    by (simp add: np_std_def np_var_def population_std_def power2_eq_square Let_def not_less)
qed

text \<open>
  Claim C6 as stated (Regular iff the population standard deviation is at most the
  threshold, a series of 0 intervals having deviation 0 and being Regular) fails on the
  empty series: \<open>np.std\<close> of an empty array is NaN, the comparison \<open>NaN <= threshold\<close> is
  false, and the result is Irregular.
\<close>

theorem analyze_rhythm_empty_counterexample:
  "np_std [] 0 = NaN \<and> analyze_rhythm [] (15 / 100) = ''Irregular''"
  by (simp add: analyze_rhythm_def np_std_def np_var_def)

text \<open>
  Claim C6, amended: for every non-empty series of RR intervals \<open>analyze_rhythm\<close> returns
  Regular if and only if the population standard deviation of the intervals is at most
  the threshold; a series of one interval has deviation 0 and is Regular for every
  threshold that is not negative. For the empty series the deviation is NaN and the
  result is Irregular.
\<close>

theorem analyze_rhythm_regular_iff:
  "(rr_intervals \<noteq> [] \<longrightarrow>
      (analyze_rhythm rr_intervals threshold = ''Regular'')
        = (population_std rr_intervals \<le> threshold))
   \<and> (0 \<le> threshold \<longrightarrow> analyze_rhythm [x] threshold = ''Regular'')
   \<and> analyze_rhythm [] threshold = ''Irregular''"
proof (intro conjI impI)
  assume "rr_intervals \<noteq> []"
  then show "(analyze_rhythm rr_intervals threshold = ''Regular'')
        = (population_std rr_intervals \<le> threshold)"
    by (simp add: analyze_rhythm_def np_std_nonempty)
next
  assume "0 \<le> threshold"
  then show "analyze_rhythm [x] threshold = ''Regular''"
    by (simp add: analyze_rhythm_def np_std_nonempty population_std_def)
next
  show "analyze_rhythm [] threshold = ''Irregular''"
    by (simp add: analyze_rhythm_def np_std_empty)
qed

theorem analyze_rhythm_regular_iff_witness:
  "[1, 3] \<noteq> ([] :: real list)
   \<and> population_std [1, 3] = 1
   \<and> analyze_rhythm [1, 3] 1 = ''Regular''
   \<and> analyze_rhythm [1, 3] (1 / 2) = ''Irregular''
   \<and> (0 :: real) \<le> 15 / 100 \<and> analyze_rhythm [8 / 10] (15 / 100) = ''Regular''"
proof -
  have ne: "[1, 3] \<noteq> ([] :: real list)" by simp
  have p: "population_std [1, 3] = 1" by (simp add: population_std_def)
  have t: "(0 :: real) \<le> 15 / 100" by simp
  from analyze_rhythm_regular_iff [of "[1, 3]" 1] ne p
  have a: "analyze_rhythm [1, 3] 1 = ''Regular''" by simp
  from analyze_rhythm_regular_iff [of "[1, 3]" "1 / 2"] ne p
  have "analyze_rhythm [1, 3] (1 / 2) \<noteq> ''Regular''" by simp
  then have b: "analyze_rhythm [1, 3] (1 / 2) = ''Irregular''"
    by (simp add: analyze_rhythm_def split: if_splits)
  from analyze_rhythm_regular_iff [of _ "15 / 100" "8 / 10"] t
  have c: "analyze_rhythm [8 / 10] (15 / 100) = ''Regular''" by blast
  show ?thesis using ne p t a b c by blast
qed

subsection \<open>analyze_st_segment\<close>

lemma py_slice_sublist: "sublist (py_slice xs i j) xs"
proof -
  have "sublist (take n (drop m xs)) (drop m xs)" for n m
    by (rule sublist_take)
  moreover have "sublist (drop m xs) xs" for m
    by (rule sublist_drop)
  ultimately show ?thesis
    unfolding py_slice_def Let_def by (blast intro: sublist_order.order.trans)
qed

lemma analyze_st_segment_errors:
  "analyze_st_segment s ps r = Inl e \<Longrightarrow> e = ValueError"
  by (auto simp: analyze_st_segment_def np_mean_segments_def Let_def
      split: sum.splits list.splits if_splits)

lemma st_amplitude_loop_iff:
  "st_amplitude_loop amps
     = (if \<exists>a\<in>set amps. float_abs_gt a (1 / 10) then ''Abnormal'' else ''Normal'')"
  by (induction amps) auto

lemma np_mean_segments_eq:
  "np_mean_segments segments
     = (if \<forall>a\<in>set segments. \<forall>b\<in>set segments. length a = length b
        then Inr (np_mean (concat segments)) else Inl ValueError)"
proof (cases segments)
  case Nil
  then show ?thesis by (simp add: np_mean_segments_def)
next
  case (Cons s rest)
  have "list_all (\<lambda>t. length t = length s) rest
          = (\<forall>a\<in>set (s # rest). \<forall>b\<in>set (s # rest). length a = length b)"
  proof
    assume l: "list_all (\<lambda>t. length t = length s) rest"
    then have "\<forall>t\<in>set (s # rest). length t = length s"
      by (simp add: list_all_iff)
    then show "\<forall>a\<in>set (s # rest). \<forall>b\<in>set (s # rest). length a = length b"
      by metis
  next
    assume r: "\<forall>a\<in>set (s # rest). \<forall>b\<in>set (s # rest). length a = length b"
    have "\<forall>t\<in>set rest. length t = length s"
    proof
      fix t assume "t \<in> set rest"
      then have "t \<in> set (s # rest)" and "s \<in> set (s # rest)" by simp_all
      then show "length t = length s" using r by blast
    qed
    then show "list_all (\<lambda>t. length t = length s) rest"
      by (simp add: list_all_iff)
  qed
  then show ?thesis unfolding Cons np_mean_segments_def by (simp only: list.case)
qed

lemma window_lengths:
  assumes "0 \<le> sampling_rate"
  shows "st_segment_duration sampling_rate = 8 * sampling_rate div 100"
    and "t_segment_start sampling_rate = 2 * sampling_rate div 10"
proof -
  have a: "8 / 100 * real_of_int sampling_rate = real_of_int (8 * sampling_rate) / real_of_int 100"
    by simp
  have b: "2 / 10 * real_of_int sampling_rate = real_of_int (2 * sampling_rate) / real_of_int 10"
    by simp
  have pa: "0 \<le> 8 / 100 * real_of_int sampling_rate" using assms by simp
  have pb: "0 \<le> 2 / 10 * real_of_int sampling_rate" using assms by simp
  show "st_segment_duration sampling_rate = 8 * sampling_rate div 100"
    unfolding st_segment_duration_def py_int_def using pa
    by (simp only: if_True a floor_divide_of_int_eq)
  show "t_segment_start sampling_rate = 2 * sampling_rate div 10"
    unfolding t_segment_start_def py_int_def using pb
    by (simp only: if_True b floor_divide_of_int_eq)
qed

lemma py_slice_inside:
  "0 \<le> i \<and> i \<le> j \<and> j \<le> int (length xs) \<Longrightarrow>
   py_slice xs i j = take (nat (j - i)) (drop (nat i) xs)"
  by (auto simp: py_slice_def py_slice_bound_def Let_def nat_diff_distrib)

lemma py_slice_beyond_end:
  "0 \<le> i \<and> i \<le> j \<and> int (length xs) \<le> j \<Longrightarrow> py_slice xs i j = drop (nat i) xs"
  by (auto simp: py_slice_def py_slice_bound_def Let_def)

lemma py_slice_crossing:
  "0 \<le> j \<and> j \<le> i \<Longrightarrow> py_slice xs i j = []"
  by (auto simp: py_slice_def py_slice_bound_def Let_def)

lemma py_slice_before_start:
  "0 \<le> p \<and> p < d \<and> d \<le> int (length xs) \<Longrightarrow> py_slice xs (p - d) p = []"
  by (auto simp: py_slice_def py_slice_bound_def Let_def)

lemma py_slice_negative_start:
  "i < 0 \<Longrightarrow> py_slice xs i j = py_slice xs (max 0 (i + int (length xs))) j"
  by (auto simp: py_slice_def py_slice_bound_def Let_def max_def)

text \<open>
  Claim C8 as stated (a peak whose ST or TP window leaves the signal is detected,
  treated as InsufficientDataError and excluded) fails. At 25 Hz the ST window starts 5
  samples after the peak and spans 2. In a signal of 10 samples the peak at index 4 has
  the window \<open>[9, 11)\<close>, partly outside; the slice is cut to the one sample at index 9,
  and that sample decides the result: Abnormal, where the signal without the peak is
  Normal.
\<close>

theorem analyze_st_segment_boundary_counterexample:
  "st_segment_duration 25 = 2 \<and> t_segment_start 25 = 5
   \<and> length [0, 0, 0, 0, 0, 0, 0, 0, 0, 1 :: real] = 10
   \<and> st_segments [0, 0, 0, 0, 0, 0, 0, 0, 0, 1] [4] 25 = [[1]]
   \<and> tp_segments [0, 0, 0, 0, 0, 0, 0, 0, 0, 1] [4] 25 = [[0, 0]]
   \<and> analyze_st_segment [0, 0, 0, 0, 0, 0, 0, 0, 0, 1] [4] 25 = Inr ''Abnormal''
   \<and> analyze_st_segment [0, 0, 0, 0, 0, 0, 0, 0, 0, 1] [] 25 = Inr ''Normal''"
  by (simp add: analyze_st_segment_def st_segments_def tp_segments_def st_segment_duration_def
      t_segment_start_def py_int_def py_slice_def py_slice_bound_def np_mean_segments_def
      np_mean_def float_sub_def)

text \<open>
  Claim C8, amended: \<open>analyze_st_segment\<close> does not detect a window that leaves the
  signal and raises neither InsufficientDataError nor IndexError. For a sampling rate
  that is not negative, with \<open>d = int(0.08 * rate)\<close> and \<open>s = int(0.2 * rate)\<close>, the ST
  window of every R-peak \<open>r\<close> is the slice \<open>[r + s : r + s + d]\<close> and its TP window the
  slice \<open>[r - d : r]\<close>, peaks near either end included. When the TP slices of all peaks
  have one length, the baseline is the mean over the TP slices of all peaks, and the
  result is Abnormal exactly when some peak of the list has
  \<open>|mean(ST slice) - baseline| > 0.1\<close>, Normal otherwise (a NaN mean, from an empty
  slice, exceeds nothing). When two TP slices differ in length the call raises
  ValueError. A slice never reads outside the signal: it is a contiguous part of it,
  the exact window when the bounds lie inside the signal, cut at the end of the signal
  when the upper bound lies beyond it, taken from the end of the signal when the
  lower bound is negative (which Python counts from the end), and empty when the
  bounds cross: the TP slice of a peak closer to the start than \<open>d\<close> samples is empty
  in a signal of at least \<open>d\<close> samples.
\<close>

theorem analyze_st_segment_uses_every_peak:
  assumes "0 \<le> sampling_rate"
    and "d = 8 * sampling_rate div 100"
    and "s = 2 * sampling_rate div 10"
  shows
    "((\<forall>r\<in>set r_peak_indices. \<forall>r'\<in>set r_peak_indices.
          length (py_slice ecg_signal (r - d) r) = length (py_slice ecg_signal (r' - d) r')) \<longrightarrow>
        analyze_st_segment ecg_signal r_peak_indices sampling_rate
          = Inr (if \<exists>r\<in>set r_peak_indices.
                      float_abs_gt
                        (float_sub (np_mean (py_slice ecg_signal (r + s) (r + s + d)))
                           (np_mean (concat (map (\<lambda>p. py_slice ecg_signal (p - d) p)
                                                r_peak_indices))))
                        (1 / 10)
                 then ''Abnormal'' else ''Normal''))
     \<and> ((\<exists>r\<in>set r_peak_indices. \<exists>r'\<in>set r_peak_indices.
          length (py_slice ecg_signal (r - d) r) \<noteq> length (py_slice ecg_signal (r' - d) r')) \<longrightarrow>
        analyze_st_segment ecg_signal r_peak_indices sampling_rate = Inl ValueError)
     \<and> analyze_st_segment ecg_signal r_peak_indices sampling_rate \<noteq> Inl InsufficientDataError
     \<and> analyze_st_segment ecg_signal r_peak_indices sampling_rate \<noteq> Inl IndexError
     \<and> sublist (py_slice ecg_signal i j) ecg_signal
     \<and> (0 \<le> i \<and> i \<le> j \<and> j \<le> int (length ecg_signal) \<longrightarrow>
          py_slice ecg_signal i j = take (nat (j - i)) (drop (nat i) ecg_signal))
     \<and> (0 \<le> i \<and> i \<le> j \<and> int (length ecg_signal) \<le> j \<longrightarrow>
          py_slice ecg_signal i j = drop (nat i) ecg_signal)
     \<and> (i < 0 \<longrightarrow>
          py_slice ecg_signal i j = py_slice ecg_signal (max 0 (i + int (length ecg_signal))) j)
     \<and> (0 \<le> j \<and> j \<le> i \<longrightarrow> py_slice ecg_signal i j = [])
     \<and> (0 \<le> p \<and> p < d \<and> d \<le> int (length ecg_signal) \<longrightarrow>
          py_slice ecg_signal (p - d) p = [])"
proof -
  let ?tp = "\<lambda>p. py_slice ecg_signal (p - d) p"
  let ?st = "\<lambda>r. py_slice ecg_signal (r + s) (r + s + d)"
  have dur: "st_segment_duration sampling_rate = d"
    using assms(1,2) by (simp add: window_lengths)
  have start: "t_segment_start sampling_rate = s"
    using assms(1,3) by (simp add: window_lengths)
  have tps: "tp_segments ecg_signal r_peak_indices sampling_rate = map ?tp r_peak_indices"
    by (simp add: tp_segments_def dur)
  have sts: "st_segments ecg_signal r_peak_indices sampling_rate = map ?st r_peak_indices"
    by (simp add: st_segments_def dur start)
  have same: "(\<forall>a\<in>set (map ?tp r_peak_indices). \<forall>b\<in>set (map ?tp r_peak_indices).
                  length a = length b)
              = (\<forall>r\<in>set r_peak_indices. \<forall>r'\<in>set r_peak_indices.
                  length (?tp r) = length (?tp r'))"
    by (simp only: set_map ball_simps(9))
  have abn: "(\<exists>a\<in>set (map (\<lambda>seg. float_sub (np_mean seg) b) (map ?st r_peak_indices)).
                float_abs_gt a (1 / 10))
             = (\<exists>r\<in>set r_peak_indices. float_abs_gt (float_sub (np_mean (?st r)) b) (1 / 10))"
    for b
    by (simp only: set_map bex_simps(7))
  have c1: "(\<forall>r\<in>set r_peak_indices. \<forall>r'\<in>set r_peak_indices.
                length (?tp r) = length (?tp r')) \<longrightarrow>
        analyze_st_segment ecg_signal r_peak_indices sampling_rate
          = Inr (if \<exists>r\<in>set r_peak_indices.
                      float_abs_gt
                        (float_sub (np_mean (?st r)) (np_mean (concat (map ?tp r_peak_indices))))
                        (1 / 10)
                 then ''Abnormal'' else ''Normal'')"
  proof
    assume eq: "\<forall>r\<in>set r_peak_indices. \<forall>r'\<in>set r_peak_indices.
                length (?tp r) = length (?tp r')"
    then have m: "np_mean_segments (map ?tp r_peak_indices)
                    = Inr (np_mean (concat (map ?tp r_peak_indices)))"
      unfolding np_mean_segments_eq same by (rule if_P)
    show "analyze_st_segment ecg_signal r_peak_indices sampling_rate
          = Inr (if \<exists>r\<in>set r_peak_indices.
                      float_abs_gt
                        (float_sub (np_mean (?st r)) (np_mean (concat (map ?tp r_peak_indices))))
                        (1 / 10)
                 then ''Abnormal'' else ''Normal'')"
      unfolding analyze_st_segment_def tps sts m Let_def st_amplitude_loop_iff abn
      by (simp only: sum.case)
  qed
  have c2: "(\<exists>r\<in>set r_peak_indices. \<exists>r'\<in>set r_peak_indices.
                length (?tp r) \<noteq> length (?tp r')) \<longrightarrow>
        analyze_st_segment ecg_signal r_peak_indices sampling_rate = Inl ValueError"
  proof
    assume "\<exists>r\<in>set r_peak_indices. \<exists>r'\<in>set r_peak_indices.
                length (?tp r) \<noteq> length (?tp r')"
    then have "\<not> (\<forall>r\<in>set r_peak_indices. \<forall>r'\<in>set r_peak_indices.
                length (?tp r) = length (?tp r'))"
      by blast
    then have m: "np_mean_segments (map ?tp r_peak_indices) = Inl ValueError"
      unfolding np_mean_segments_eq same by (rule if_not_P)
    show "analyze_st_segment ecg_signal r_peak_indices sampling_rate = Inl ValueError"
      unfolding analyze_st_segment_def tps m by (simp only: sum.case)
  qed
  have c3: "analyze_st_segment ecg_signal r_peak_indices sampling_rate
              \<noteq> Inl InsufficientDataError"
    using analyze_st_segment_errors by fastforce
  have c4: "analyze_st_segment ecg_signal r_peak_indices sampling_rate \<noteq> Inl IndexError"
    using analyze_st_segment_errors by fastforce
  have c5: "sublist (py_slice ecg_signal i j) ecg_signal" by (rule py_slice_sublist)
  have c6: "0 \<le> i \<and> i \<le> j \<and> j \<le> int (length ecg_signal) \<longrightarrow>
          py_slice ecg_signal i j = take (nat (j - i)) (drop (nat i) ecg_signal)"
    using py_slice_inside by blast
  have c7: "0 \<le> i \<and> i \<le> j \<and> int (length ecg_signal) \<le> j \<longrightarrow>
          py_slice ecg_signal i j = drop (nat i) ecg_signal"
    using py_slice_beyond_end by blast
  have c8: "i < 0 \<longrightarrow>
          py_slice ecg_signal i j = py_slice ecg_signal (max 0 (i + int (length ecg_signal))) j"
    using py_slice_negative_start by blast
  have c9: "0 \<le> j \<and> j \<le> i \<longrightarrow> py_slice ecg_signal i j = []"
    using py_slice_crossing by blast
  have c10: "0 \<le> p \<and> p < d \<and> d \<le> int (length ecg_signal) \<longrightarrow>
          py_slice ecg_signal (p - d) p = []"
    using py_slice_before_start by blast
  show ?thesis using c1 c2 c3 c4 c5 c6 c7 c8 c9 c10 by (intro conjI)
qed

theorem analyze_st_segment_uses_every_peak_witness:
  "(0 :: int) \<le> 25 \<and> (2 :: int) = 8 * 25 div 100 \<and> (5 :: int) = 2 * 25 div 10
   \<and> py_slice [0, 0, 0, 0, 0, 0, 0, 0, 0, 1 :: real] (4 - 2) 4 = [0, 0]
   \<and> py_slice [0, 0, 0, 0, 0, 0, 0, 0, 0, 1 :: real] (4 + 5) (4 + 5 + 2) = [1]
   \<and> analyze_st_segment [0, 0, 0, 0, 0, 0, 0, 0, 0, 1] [4] 25 = Inr ''Abnormal''
   \<and> py_slice [0, 0, 0, 0, 0, 0, 0, 0, 0, 1 :: real] (1 - 2) 1 = []
   \<and> analyze_st_segment [0, 0, 0, 0, 0, 0, 0, 0, 0, 1] [1, 4] 25 = Inl ValueError
   \<and> sublist (py_slice [0, 0, 0, 0, 0, 0, 0, 0, 0, 1 :: real] 9 11)
         [0, 0, 0, 0, 0, 0, 0, 0, 0, 1]
   \<and> py_slice [0, 0, 0, 0, 0, 0, 0, 0, 0, 1 :: real] 2 4
       = take 2 (drop 2 [0, 0, 0, 0, 0, 0, 0, 0, 0, 1])
   \<and> py_slice [0, 0, 0, 0, 0, 0, 0, 0, 0, 1 :: real] 9 11
       = drop 9 [0, 0, 0, 0, 0, 0, 0, 0, 0, 1]
   \<and> py_slice [0, 0, 0, 0, 0, 0, 0, 0, 0, 1 :: real] (- 1) 1
       = py_slice [0, 0, 0, 0, 0, 0, 0, 0, 0, 1] 9 1
   \<and> py_slice [0, 0, 0, 0, 0, 0, 0, 0, 0, 1 :: real] 9 1 = []"
proof -
  let ?sig = "[0, 0, 0, 0, 0, 0, 0, 0, 0, 1 :: real]"
  have a1: "(0 :: int) \<le> 25" by simp
  have a2: "(2 :: int) = 8 * 25 div 100" by simp
  have a3: "(5 :: int) = 2 * 25 div 10" by simp
  have tp4: "py_slice ?sig (4 - 2) 4 = [0, 0]"
    by (simp add: py_slice_def py_slice_bound_def)
  have st4: "py_slice ?sig (4 + 5) (4 + 5 + 2) = [1]"
    by (simp add: py_slice_def py_slice_bound_def)
  have tp1: "py_slice ?sig (1 - 2) 1 = []"
    by (simp add: py_slice_def py_slice_bound_def)
  note instA = analyze_st_segment_uses_every_peak
      [OF a1 a2 a3, where r_peak_indices = "[4]" and ecg_signal = ?sig and i = 9 and j = 11]
  note instB = analyze_st_segment_uses_every_peak
      [OF a1 a2 a3, where r_peak_indices = "[1, 4]" and ecg_signal = ?sig and i = 2 and j = 4]
  note instC = analyze_st_segment_uses_every_peak
      [OF a1 a2 a3, where r_peak_indices = "[4]" and ecg_signal = ?sig and i = "- 1" and j = 1]
  have hA: "\<forall>r\<in>set [4 :: int]. \<forall>r'\<in>set [4]. length (py_slice ?sig (r - 2) r)
              = length (py_slice ?sig (r' - 2) r')"
    by simp
  from instA [THEN conjunct1, THEN mp, OF hA]
  have rA: "analyze_st_segment ?sig [4] 25 = Inr ''Abnormal''"
    using tp4 st4 by (simp add: np_mean_def float_sub_def)
  have hB: "\<exists>r\<in>set [1, 4 :: int]. \<exists>r'\<in>set [1, 4]. length (py_slice ?sig (r - 2) r)
              \<noteq> length (py_slice ?sig (r' - 2) r')"
  proof (intro bexI)
    show "length (py_slice ?sig (1 - 2) 1) \<noteq> length (py_slice ?sig (4 - 2) 4)"
      unfolding tp1 tp4 by simp
  qed simp_all
  from instB [THEN conjunct2, THEN conjunct1, THEN mp, OF hB]
  have rB: "analyze_st_segment ?sig [1, 4] 25 = Inl ValueError" .
  from instA [THEN conjunct2, THEN conjunct2, THEN conjunct2, THEN conjunct2, THEN conjunct1]
  have s5: "sublist (py_slice ?sig 9 11) ?sig" .
  have h6: "(0 :: int) \<le> 2 \<and> (2 :: int) \<le> 4 \<and> 4 \<le> int (length ?sig)" by simp
  from instB [THEN conjunct2, THEN conjunct2, THEN conjunct2, THEN conjunct2, THEN conjunct2,
              THEN conjunct1, THEN mp, OF h6]
  have s6: "py_slice ?sig 2 4 = take 2 (drop 2 ?sig)" by simp
  have h7: "(0 :: int) \<le> 9 \<and> (9 :: int) \<le> 11 \<and> int (length ?sig) \<le> 11" by simp
  from instA [THEN conjunct2, THEN conjunct2, THEN conjunct2, THEN conjunct2, THEN conjunct2,
              THEN conjunct2, THEN conjunct1, THEN mp, OF h7]
  have s7: "py_slice ?sig 9 11 = drop 9 ?sig" by simp
  have h8: "(- 1 :: int) < 0" by simp
  from instC [THEN conjunct2, THEN conjunct2, THEN conjunct2, THEN conjunct2, THEN conjunct2,
              THEN conjunct2, THEN conjunct2, THEN conjunct1, THEN mp, OF h8]
  have s8: "py_slice ?sig (- 1) 1 = py_slice ?sig 9 1" by simp
  note instD = analyze_st_segment_uses_every_peak
      [OF a1 a2 a3, where r_peak_indices = "[4]" and ecg_signal = ?sig and i = 9 and j = 1]
  have h9: "(0 :: int) \<le> 1 \<and> (1 :: int) \<le> 9" by simp
  from instD [THEN conjunct2, THEN conjunct2, THEN conjunct2, THEN conjunct2, THEN conjunct2,
              THEN conjunct2, THEN conjunct2, THEN conjunct2, THEN conjunct1, THEN mp, OF h9]
  have s9: "py_slice ?sig 9 1 = []" .
  note instE = analyze_st_segment_uses_every_peak
      [OF a1 a2 a3, where r_peak_indices = "[4]" and ecg_signal = ?sig and p = 1]
  have h10: "(0 :: int) \<le> 1 \<and> (1 :: int) < 2 \<and> 2 \<le> int (length ?sig)" by simp
  from instE [THEN conjunct2, THEN conjunct2, THEN conjunct2, THEN conjunct2, THEN conjunct2,
              THEN conjunct2, THEN conjunct2, THEN conjunct2, THEN conjunct2, THEN mp, OF h10]
  have s10: "py_slice ?sig (1 - 2) 1 = []" .
  show ?thesis
    using a1 a2 a3 tp4 st4 rA tp1 rB s5 s6 s7 s8 s9 by (intro conjI)
qed

text \<open>
  Claim C10: for an empty sequence of R-peaks \<open>analyze_st_segment\<close> returns Normal and
  raises nothing. There is no TP segment and no ST segment, the pooled baseline is the
  mean of nothing (NaN, with a warning only), the list of amplitudes is empty and the
  loop returns at once.
\<close>

theorem analyze_st_segment_no_peaks:
  "tp_segments ecg_signal [] sampling_rate = []
   \<and> st_segments ecg_signal [] sampling_rate = []
   \<and> np_mean_segments [] = Inr NaN
   \<and> analyze_st_segment ecg_signal [] sampling_rate = Inr ''Normal''"
  by (simp add: analyze_st_segment_def st_segments_def tp_segments_def np_mean_segments_def
      np_mean_def)

subsection \<open>analyze_pr_interval\<close>

lemma load_global_error: "load_global v = Inl e \<Longrightarrow> e = NameError"
  by (simp add: load_global_def split: option.splits)

lemma slice_window_error: "slice_window xs a b = Inl e \<Longrightarrow> e = TypeError"
  by (cases a; cases b) auto

lemma p_peak_loop_error:
  "p_peak_loop fp ecg rs acc = Inl e \<Longrightarrow> e = NameError \<or> e = TypeError"
proof (induction rs arbitrary: acc)
  case Nil
  then show ?case by simp
next
  case (Cons r rs)
  then show ?case
    by (auto simp: Let_def split: sum.splits if_splits
        dest: load_global_error slice_window_error)
qed

text \<open>The upper bound of the QRS window is a float, so the first round of the second
  loop already raises.\<close>

lemma qrs_peak_loop_nonempty:
  "rs \<noteq> [] \<Longrightarrow>
   qrs_peak_loop fp ecg rs b = Inl NameError \<or> qrs_peak_loop fp ecg rs b = Inl TypeError"
  by (cases rs) (auto simp: Let_def load_global_def split: sum.splits option.splits)

text \<open>
  Whatever the two global names are bound to, the function does not return: it raises
  NameError, TypeError or UnboundLocalError.
\<close>

lemma analyze_pr_interval_always_raises:
  "analyze_pr_interval g fp rr sr thr = Inl NameError
   \<or> analyze_pr_interval g fp rr sr thr = Inl TypeError
   \<or> analyze_pr_interval g fp rr sr thr = Inl UnboundLocalError"
proof (cases "g_r_peak_indices g")
  case None
  then show ?thesis by (simp add: analyze_pr_interval_def load_global_def)
next
  case (Some rs)
  show ?thesis
  proof (cases "p_peak_loop fp (g_ecg_data g) rs []")
    case (Inl e)
    then have "e = NameError \<or> e = TypeError" by (rule p_peak_loop_error)
    then show ?thesis using Some Inl by (auto simp: analyze_pr_interval_def load_global_def)
  next
    case (Inr ps)
    show ?thesis
    proof (cases "rs = []")
      case True
      then show ?thesis using Some Inr by (simp add: analyze_pr_interval_def load_global_def)
    next
      case False
      from qrs_peak_loop_nonempty [OF False, of fp "g_ecg_data g" None]
      show ?thesis using Some Inr by (auto simp: analyze_pr_interval_def load_global_def)
    qed
  qed
qed

text \<open>
  Claim C7 as stated (InsufficientDataError when no R-peak yields both a P-peak and a
  QRS-peak match) fails. With the module as written the first loop reads the unbound
  name \<open>r_peak_indices\<close> and the call raises NameError; with the names bound and no
  R-peak at all, the test after the second loop reads the unbound local \<open>qrs_peak\<close> and
  the call raises UnboundLocalError. In both runs no R-peak yields a match.
\<close>

theorem analyze_pr_interval_counterexample:
  "analyze_pr_interval ecgAnalyses_globals find_peaks_none [] 1000 (2 / 10) = Inl NameError
   \<and> analyze_pr_interval \<lparr>g_r_peak_indices = Some [], g_ecg_data = Some [0, 1, 0]\<rparr>
        find_peaks_none [] 1000 (2 / 10) = Inl UnboundLocalError"
  by (simp add: analyze_pr_interval_def ecgAnalyses_globals_def load_global_def)

text \<open>
  Claim C7, amended: \<open>analyze_pr_interval\<close> never raises InsufficientDataError, also when
  no R-peak yields both a P-peak and a QRS-peak match. Its classification step has no
  check for an empty list of matched pairs: on an empty list the mean is NaN, the
  comparison \<open>abs(mean - 0.2) > 0.04\<close> is false, and the step yields Normal.
\<close>

theorem analyze_pr_interval_no_insufficient_data_error:
  "analyze_pr_interval g find_peaks rr_intervals sampling_rate threshold
     \<noteq> Inl InsufficientDataError
   \<and> pr_interval_status p_peak_indices [] sampling_rate = ''Normal''
   \<and> pr_interval_status [] qrs_peak_indices sampling_rate = ''Normal''"
  using analyze_pr_interval_always_raises [of g find_peaks rr_intervals sampling_rate threshold]
  by (auto simp: pr_interval_status_def np_mean_floats_def float_sub_def)

section \<open>Properties of calculateSTDev_SNR\<close>

lemma snrAtPeaks_module: "snrAtPeaks ecgDenoising_globals = Inl NameError"
  by (simp add: snrAtPeaks_def ecgDenoising_globals_def load_global_def)

text \<open>With the module as written every call on a matrix along one of its axes raises
  NameError.\<close>

lemma calculateSTDev_SNR_module:
  assumes "np_asanyarray arr = Inr arr" and "axis = 0 \<or> axis = 1"
  shows "calculateSTDev_SNR ecgDenoising_globals arr axis ddof = Inl NameError"
  using assms by (auto simp: calculateSTDev_SNR_def lanes_def snrAtPeaks_module Let_def)

text \<open>
  Claim C9 (the estimator returns, per position along the axis, 0 where the standard
  deviation is 0 and mean over deviation elsewhere, and returns normally on every
  matrix). The code run on \<open>[[1, 2], [3, 4]]\<close> along axis 0 and on \<open>[[1, 1], [1, 1]]\<close>
  along axis 1 raises NameError at the statement that computes \<open>snrAtPeaks\<close>; the
  guarded ratio of the \<open>return\<close> statement, which is never reached, would be \<open>[2, 3]\<close>
  and \<open>[0, 0]\<close>.
\<close>

theorem calculateSTDev_SNR_raises_NameError:
  "calculateSTDev_SNR ecgDenoising_globals [[1, 2], [3, 4]] 0 0 = Inl NameError
   \<and> calculateSTDev_SNR ecgDenoising_globals [[1, 1], [1, 1]] 1 0 = Inl NameError
   \<and> snr_where (map np_mean (transpose [[1, 2], [3, 4]]))
                (map (\<lambda>l. np_std l 0) (transpose [[1, 2], [3, 4]])) = [Finite 2, Finite 3]
   \<and> snr_where (map np_mean [[1, 1], [1, 1]])
                (map (\<lambda>l. np_std l 0) [[1, 1], [1, 1]]) = [Finite 0, Finite 0]"
  by (simp add: calculateSTDev_SNR_def np_asanyarray_def lanes_def snrAtPeaks_module Let_def
      snr_where_def np_mean_def np_std_def np_var_def)

end
